theory Spec2Isabelle
  imports Main
begin

section \<open>The studio socket client (\<open>useSocketClient\<close>)\<close>

text \<open>
  The hook \<open>useSocketClient\<close> keeps one WebSocket to the studio backend, probes the
  Python runtime behind it, reconnects after a transport loss and dispatches the server's
  events into the workflow store. Its module variables, the ref of each hook instance,
  the part of the workflow store it touches, and the browser's clock and timer queue are
  the fields of one state record; every callback of the hook is a function on that state.
  The values a callback closes over at render time (\<open>instanceId\<close>, \<open>socketStatus\<close>,
  \<open>playgroundOpen\<close>, \<open>project\<close>) are passed explicitly as a \<open>closure\<close>. A callback runs
  to completion, and the clock does not advance while it runs: every \<open>Date.now()\<close> of one
  callback reads the same time.
\<close>

subsection \<open>Data\<close>

datatype socket_status = Disconnected | ConnectingSocket | ConnectingPython | Connected

datatype exec_status = Idle | Waiting | Running | Success | Error

text \<open>The execution state of the workflow and of a component: \<open>status\<close>, \<open>error\<close>,
  \<open>timestamps.finished_at\<close> and \<open>until_node_id\<close>, the fields the hook reads or writes.\<close>

record execution_state =
  es_status :: exec_status
  es_error :: "string option"
  es_finished_at :: "nat option"
  es_until_node_id :: "string option"

text \<open>The state of an evaluation or optimization run.\<close>

record run_state =
  rs_status :: exec_status
  rs_run_id :: "string option"
  rs_progress :: "nat option"
  rs_total :: "nat option"
  rs_stdout :: "string option"
  rs_error :: "string option"

text \<open>\<open>StudioServerEvent\<close>, tagged by \<open>type\<close>; \<open>Unknown\<close> is any other tag. Payload
  states are optional, as the handler's \<open>?.\<close> accesses allow.\<close>

datatype server_event =
    IsAliveResponse
  | ComponentStateChange string "execution_state option"
  | ExecutionStateChange "execution_state option"
  | EvaluationStateChange "run_state option"
  | OptimizationStateChange "run_state option"
  | ErrorEvent string
  | Debug
  | Done
  | Unknown string

text \<open>\<open>StudioClientEvent\<close>: the probe, and the workflow-control events, whose payloads
  the hook never inspects.\<close>

datatype client_event = IsAlive | Control string

datatype ready_state = CONNECTING | OPEN | CLOSING | CLOSED

text \<open>What the callbacks of one render close over: the hook instance the render belongs
  to (a mounted component that calls the hook, with its own \<open>reconnectTimeoutRef\<close>), the
  render's \<open>instanceId\<close>, the \<open>socketStatus\<close> and \<open>playgroundOpen\<close> it read from the store,
  and its \<open>project\<close> (the project's id, when there is one).\<close>

record closure =
  cl_hook :: nat
  cl_instanceId :: int
  cl_socketStatus :: socket_status
  cl_playgroundOpen :: bool
  cl_project :: "string option"

text \<open>A WebSocket: its \<open>readyState\<close> and the closure of the \<open>handleMessage\<close> bound as
  \<open>onmessage\<close>.\<close>

record socket =
  readyState :: ready_state
  onmessage :: "closure option"

datatype toast_type = Info | ErrorToast | Warning

text \<open>What the hook does to the outside, in order: toasts, \<open>console.error\<close>, frames sent,
  the component alert of \<open>useAlertOnComponent\<close>, and the opening and closing of sockets.
  The \<open>debug\<close> log lines are left out.\<close>

datatype effect =
    Toast string "string option" toast_type nat
  | ConsoleError string
  | Sent client_event
  | AlertOnComponent string execution_state
  | NewWebSocket string
  | CloseSocket

text \<open>The callbacks the hook hands to \<open>setTimeout\<close> and \<open>setInterval\<close>.\<close>

datatype timer_action =
    ReconnectFire closure
  | PythonDisconnectedFire
  | OpenResultsPanelFire string
  | IsAliveFire closure

text \<open>A pending timer: its handle, the time it is due, its period when it is an interval,
  and its callback.\<close>

record timer =
  tid :: nat
  due :: nat
  period :: "nat option"
  action :: timer_action

record client =
  socketInstance :: "socket option"
  pythonDisconnectedTimeout :: "nat option"
  instances :: int
  lastIsAliveCallTimestamp :: nat
  reconnectTimeoutRef :: "nat \<Rightarrow> nat option"
  socketStatus :: socket_status
  nodes :: "string list"
  componentStates :: "string \<rightharpoonup> execution_state"
  execution :: "execution_state option"
  evaluation :: "run_state option"
  optimization :: "run_state option"
  selectedNode :: "string option"
  propertiesExpanded :: bool
  openResultsPanelRequest :: "string option"
  playgroundOpen :: bool
  now :: nat
  timers :: "timer list"
  nextTimerId :: nat
  effects :: "effect list"

subsection \<open>The browser: timers and output\<close>

text \<open>\<open>setTimeout(f, d)\<close> queues \<open>f\<close> for \<open>Date.now() + d\<close> and returns a fresh handle;
  \<open>setInterval\<close> does the same with a period; \<open>clearTimeout\<close> and \<open>clearInterval\<close> drop
  the timer of that handle. Handles are truthy.\<close>

definition setTimeout :: "timer_action \<Rightarrow> nat \<Rightarrow> client \<Rightarrow> nat \<times> client" where
  "setTimeout f d st =
     (nextTimerId st,
      st\<lparr>timers := timers st @ [\<lparr>tid = nextTimerId st, due = now st + d, period = None, action = f\<rparr>],
         nextTimerId := nextTimerId st + 1\<rparr>)"

definition setInterval :: "timer_action \<Rightarrow> nat \<Rightarrow> client \<Rightarrow> nat \<times> client" where
  "setInterval f d st =
     (nextTimerId st,
      st\<lparr>timers := timers st @ [\<lparr>tid = nextTimerId st, due = now st + d, period = Some d, action = f\<rparr>],
         nextTimerId := nextTimerId st + 1\<rparr>)"

definition clearTimeout :: "nat \<Rightarrow> client \<Rightarrow> client" where
  "clearTimeout h st = st\<lparr>timers := filter (\<lambda>t. tid t \<noteq> h) (timers st)\<rparr>"

definition clearInterval :: "nat \<Rightarrow> client \<Rightarrow> client" where
  "clearInterval h st = clearTimeout h st"

definition emit :: "effect \<Rightarrow> client \<Rightarrow> client" where
  "emit e st = st\<lparr>effects := effects st @ [e]\<rparr>"

subsection \<open>The workflow store\<close>

text \<open>
  The store \<open>useWorkflowStore\<close> is not among the sources; the hook only calls its setters
  and \<open>getWorkflow\<close>. The spec's Execution State Store holds the workflow's execution
  state, one execution state per component id, the evaluation run and the optimization
  run, and each of its setters performs the write.
\<close>

text \<open>Modelled from the spec: \<open>setSocketStatus\<close> of the store, which writes the single
  connection state.\<close>

definition setSocketStatus :: "socket_status \<Rightarrow> client \<Rightarrow> client" where
  "setSocketStatus s st = st\<lparr>socketStatus := s\<rparr>"

text \<open>Modelled from the spec: \<open>setComponentExecutionState\<close> of the store, which upserts the
  execution state kept for the component id; a write for an id that is not a node of the
  graph still stores the entry.\<close>

definition setComponentExecutionState :: "string \<Rightarrow> execution_state option \<Rightarrow> client \<Rightarrow> client" where
  "setComponentExecutionState i es st = st\<lparr>componentStates := (componentStates st)(i := es)\<rparr>"

text \<open>Modelled from the spec: \<open>setWorkflowExecutionState\<close> of the store, which replaces the
  workflow's execution state.\<close>

definition setWorkflowExecutionState :: "execution_state option \<Rightarrow> client \<Rightarrow> client" where
  "setWorkflowExecutionState es st = st\<lparr>execution := es\<rparr>"

text \<open>Modelled from the spec: \<open>setEvaluationState\<close> of the store, which performs the write
  of the evaluation run's state.\<close>

definition setEvaluationState :: "run_state option \<Rightarrow> client \<Rightarrow> client" where
  "setEvaluationState rs st = st\<lparr>evaluation := rs\<rparr>"

text \<open>Modelled from the spec: \<open>setOptimizationState\<close> of the store, the same for the
  optimization run's separate slot.\<close>

definition setOptimizationState :: "run_state option \<Rightarrow> client \<Rightarrow> client" where
  "setOptimizationState rs st = st\<lparr>optimization := rs\<rparr>"

text \<open>Modelled from the spec: \<open>setSelectedNode\<close> and \<open>setPropertiesExpanded\<close> of the
  store, by which the dispatcher selects a component in the UI layer.\<close>

definition setSelectedNode :: "string \<Rightarrow> client \<Rightarrow> client" where
  "setSelectedNode i st = st\<lparr>selectedNode := Some i\<rparr>"

definition setPropertiesExpanded :: "bool \<Rightarrow> client \<Rightarrow> client" where
  "setPropertiesExpanded b st = st\<lparr>propertiesExpanded := b\<rparr>"

text \<open>Modelled from the spec: \<open>setOpenResultsPanelRequest\<close> of the store, by which the
  dispatcher requests that a results panel be opened.\<close>

definition setOpenResultsPanelRequest :: "string \<Rightarrow> client \<Rightarrow> client" where
  "setOpenResultsPanelRequest p st = st\<lparr>openResultsPanelRequest := Some p\<rparr>"

text \<open>Modelled from the spec: \<open>getWorkflow().nodes\<close> of the store, each node of the graph
  with its id and, as its \<open>data.execution_state\<close>, the execution state kept for that id.\<close>

definition getWorkflowNodes :: "client \<Rightarrow> (string \<times> execution_state option) list" where
  "getWorkflowNodes st = map (\<lambda>i. (i, componentStates st i)) (nodes st)"

subsection \<open>Strings\<close>

text \<open>\<open>toLowerCase\<close> on the ASCII letters, \<open>includes\<close> as the substring test and
  \<open>slice(0, n)\<close> as \<open>take n\<close>.\<close>

definition lowerChar :: "char \<Rightarrow> char" where
  "lowerChar c =
     (if (65::nat) \<le> of_char c \<and> of_char c \<le> (90::nat) then char_of (of_char c + (32::nat)) else c)"

definition toLowerCase :: "string \<Rightarrow> string" where
  "toLowerCase s = map lowerChar s"

fun startsWith :: "string \<Rightarrow> string \<Rightarrow> bool" where
  "startsWith s [] = True"
| "startsWith [] (c # cs) = False"
| "startsWith (d # ds) (c # cs) = (d = c \<and> startsWith ds cs)"

fun includes_str :: "string \<Rightarrow> string \<Rightarrow> bool" where
  "includes_str [] sub = startsWith [] sub"
| "includes_str (d # ds) sub = (startsWith (d # ds) sub \<or> includes_str ds sub)"

definition lowerIncludes :: "string option \<Rightarrow> string \<Rightarrow> bool" where
  \<comment> \<open>\<open>message?.toLowerCase().includes(sub)\<close>, falsy for an undefined message\<close>
  "lowerIncludes message sub =
     (case message of None \<Rightarrow> False | Some m \<Rightarrow> includes_str (toLowerCase m) sub)"

subsection \<open>The message dispatcher\<close>

definition checkIfUnreachableErrorMessage :: "closure \<Rightarrow> string option \<Rightarrow> client \<Rightarrow> client" where
  "checkIfUnreachableErrorMessage cl message st =
     (if cl_socketStatus cl = Connected \<and> lowerIncludes message ''runtime is unreachable''
      then setSocketStatus ConnectingPython st
      else st)"

definition errorState :: "string option \<Rightarrow> nat \<Rightarrow> execution_state" where
  \<comment> \<open>\<open>{status: "error", error: message, timestamps: {finished_at: Date.now()}}\<close>\<close>
  "errorState message t =
     \<lparr>es_status = Error, es_error = message, es_finished_at = Some t, es_until_node_id = None\<rparr>"

text \<open>The loop of \<open>stopWorkflowIfRunning\<close> runs over the nodes as \<open>getWorkflow()\<close>
  returned them when the loop began.\<close>

fun stopRunningNodes :: "string option \<Rightarrow> (string \<times> execution_state option) list \<Rightarrow> client \<Rightarrow> client" where
  "stopRunningNodes message [] st = st"
| "stopRunningNodes message ((i, es) # ns) st =
     stopRunningNodes message ns
       (if map_option es_status es = Some Running
        then setComponentExecutionState i (Some (errorState message (now st))) st
        else st)"

definition stopWorkflowIfRunning :: "string option \<Rightarrow> client \<Rightarrow> client" where
  "stopWorkflowIfRunning message st =
     (let st1 = setWorkflowExecutionState (Some (errorState message (now st))) st
      in stopRunningNodes message (getWorkflowNodes st1) st1)"

definition alertOnError :: "string option \<Rightarrow> client \<Rightarrow> client" where
  "alertOnError message st =
     (if lowerIncludes message ''stopped'' \<or> lowerIncludes message ''interrupted''
      then emit (Toast ''Stopped'' (map_option (take 140) message) Info 3000) st
      else emit (Toast ''Error'' (map_option (take 140) message) ErrorToast 5000) st)"

fun handleMessage :: "closure \<Rightarrow> server_event \<Rightarrow> client \<Rightarrow> client" where
  "handleMessage cl IsAliveResponse st =
     (let st1 = (case pythonDisconnectedTimeout st of
                   Some h \<Rightarrow> (clearTimeout h st)\<lparr>pythonDisconnectedTimeout := None\<rparr>
                 | None \<Rightarrow> st)
      in setSocketStatus Connected st1)"
| "handleMessage cl (ComponentStateChange component_id es) st =
     (let currentComponentState =
            (case find (\<lambda>node. fst node = component_id) (getWorkflowNodes st) of
               None \<Rightarrow> None
             | Some node \<Rightarrow> snd node);
          st1 = setComponentExecutionState component_id es st;
          st2 = (case es of
                   None \<Rightarrow> st1
                 | Some e \<Rightarrow>
                     if es_status e = Error
                     then emit (AlertOnComponent component_id e)
                            (checkIfUnreachableErrorMessage cl (es_error e) st1)
                     else st1)
      in if \<not> cl_playgroundOpen cl
            \<and> map_option es_status es \<noteq> Some Running
            \<and> map_option es_status currentComponentState \<noteq> Some Success
            \<and> ((map_option es_status (execution st2) = Some Running
                  \<and> (case execution st2 of None \<Rightarrow> None | Some e \<Rightarrow> es_until_node_id e)
                      = Some component_id)
                \<or> map_option es_status (execution st2) \<noteq> Some Running)
         then setPropertiesExpanded True (setSelectedNode component_id st2)
         else st2)"
| "handleMessage cl (ExecutionStateChange es) st =
     (let st1 = setWorkflowExecutionState es st
      in case es of
           None \<Rightarrow> st1
         | Some e \<Rightarrow>
             if es_status e = Error
             then stopWorkflowIfRunning (es_error e) (alertOnError (es_error e) st1)
             else st1)"
| "handleMessage cl (EvaluationStateChange rs) st =
     (let currentEvaluationState = evaluation st;
          st1 = setEvaluationState rs st
      in case rs of
           None \<Rightarrow> st1
         | Some r \<Rightarrow>
             if rs_status r = Error
             then (let st2 = alertOnError (rs_error r) st1
                   in if map_option rs_status currentEvaluationState \<noteq> Some Waiting
                      then snd (setTimeout (OpenResultsPanelFire ''evaluations'') 500 st2)
                      else st2)
             else st1)"
| "handleMessage cl (OptimizationStateChange rs) st =
     (let currentOptimizationState = optimization st;
          st1 = setOptimizationState rs st
      in case rs of
           None \<Rightarrow> st1
         | Some r \<Rightarrow>
             if rs_status r = Error
             then (let st2 = alertOnError (rs_error r) st1
                   in if map_option rs_status currentOptimizationState \<noteq> Some Waiting
                      then snd (setTimeout (OpenResultsPanelFire ''optimizations'') 500 st2)
                      else st2)
             else st1)"
| "handleMessage cl (ErrorEvent message) st =
     alertOnError (Some message)
       (stopWorkflowIfRunning (Some message)
          (checkIfUnreachableErrorMessage cl (Some message) st))"
| "handleMessage cl Debug st = st"
| "handleMessage cl Done st = st"
| "handleMessage cl (Unknown ty) st =
     emit (Toast ''Unknown message type on client'' (Some ty) Warning 5000) st"

subsection \<open>The connection manager\<close>

definition socketOpen :: "client \<Rightarrow> bool" where
  \<comment> \<open>\<open>socketInstance?.readyState === WebSocket.OPEN\<close>\<close>
  "socketOpen st = (case socketInstance st of None \<Rightarrow> False | Some s \<Rightarrow> readyState s = OPEN)"

text \<open>\<open>connect\<close> opens a socket unless there is no project or a socket is open. The new
  socket starts in \<open>CONNECTING\<close>, with the \<open>handleMessage\<close> of \<open>connect\<close>'s own render as
  \<open>onmessage\<close>.\<close>

definition connect :: "closure \<Rightarrow> client \<Rightarrow> client" where
  "connect cl st =
     (case cl_project cl of
        None \<Rightarrow> st
      | Some p \<Rightarrow>
          if socketOpen st then st
          else (emit (NewWebSocket p) (setSocketStatus ConnectingSocket st))
                 \<lparr>socketInstance := Some \<lparr>readyState = CONNECTING, onmessage = Some cl\<rparr>\<rparr>)"

text \<open>\<open>reconnectTimeoutRef\<close> is a \<open>useRef\<close> of the hook: each hook instance has its own,
  and \<open>scheduleReconnect\<close>, the retry's callback and \<open>disconnect\<close> read and write the ref of
  the instance they belong to.\<close>

definition scheduleReconnect :: "closure \<Rightarrow> client \<Rightarrow> client" where
  "scheduleReconnect cl st =
     (case reconnectTimeoutRef st (cl_hook cl) of
        Some h \<Rightarrow> st
      | None \<Rightarrow>
          (let (h, st1) = setTimeout (ReconnectFire cl) 5000 st
           in st1\<lparr>reconnectTimeoutRef := (reconnectTimeoutRef st1)(cl_hook cl := Some h)\<rparr>))"

definition onopen :: "client \<Rightarrow> client" where
  "onopen st =
     (if socketStatus st = Disconnected \<or> socketStatus st = ConnectingSocket
      then setSocketStatus ConnectingPython (st\<lparr>lastIsAliveCallTimestamp := 0\<rparr>)
      else st)"

definition onclose :: "closure \<Rightarrow> client \<Rightarrow> client" where
  "onclose cl st =
     (if socketOpen st then st
      else scheduleReconnect cl (setSocketStatus Disconnected st))"

definition onerror :: "closure \<Rightarrow> client \<Rightarrow> client" where
  "onerror cl st =
     scheduleReconnect cl (setSocketStatus Disconnected (emit (ConsoleError ''WebSocket error:'') st))"

definition disconnect :: "closure \<Rightarrow> client \<Rightarrow> client" where
  "disconnect cl st =
     (let st1 = (case socketInstance st of
                   Some s \<Rightarrow> (emit CloseSocket st)\<lparr>socketInstance := None\<rparr>
                 | None \<Rightarrow> st);
          st2 = (case reconnectTimeoutRef st1 (cl_hook cl) of
                   Some h \<Rightarrow>
                     (clearTimeout h st1)
                       \<lparr>reconnectTimeoutRef := (reconnectTimeoutRef st1)(cl_hook cl := None)\<rparr>
                 | None \<Rightarrow> st1)
      in setSocketStatus Disconnected st2)"

definition sendMessage :: "client_event \<Rightarrow> client \<Rightarrow> client" where
  "sendMessage event st =
     (if socketOpen st then emit (Sent event) st
      else emit (ConsoleError ''Cannot send message: WebSocket is not connected'') st)"

subsection \<open>Rendering and effects\<close>

text \<open>A render of the hook instance \<open>k\<close> counts itself in \<open>instances\<close> and takes the new
  count as its \<open>instanceId\<close>; unmounting counts down.\<close>

definition render :: "nat \<Rightarrow> string option \<Rightarrow> client \<Rightarrow> closure \<times> client" where
  "render k p st =
     (let st1 = st\<lparr>instances := instances st + 1\<rparr>
      in (\<lparr>cl_hook = k, cl_instanceId = instances st1, cl_socketStatus = socketStatus st1,
           cl_playgroundOpen = playgroundOpen st1, cl_project = p\<rparr>, st1))"

definition unmountEffect :: "client \<Rightarrow> client" where
  "unmountEffect st = st\<lparr>instances := instances st - 1\<rparr>"

definition rebindEffect :: "closure \<Rightarrow> client \<Rightarrow> client" where
  "rebindEffect cl st =
     (if cl_instanceId cl \<noteq> instances st then st
      else case socketInstance st of
             None \<Rightarrow> st
           | Some s \<Rightarrow> st\<lparr>socketInstance := Some (s\<lparr>onmessage := Some cl\<rparr>)\<rparr>)"

subsection \<open>The liveness monitor\<close>

definition pythonReconnect :: "client \<Rightarrow> client" where
  "pythonReconnect st =
     (let (h, st1) = setTimeout PythonDisconnectedFire 10000 st
      in st1\<lparr>pythonDisconnectedTimeout := Some h\<rparr>)"

definition isAlive :: "closure \<Rightarrow> client \<Rightarrow> client" where
  "isAlive cl st =
     (if cl_instanceId cl \<noteq> instances st then st
      else (let st1 = sendMessage IsAlive (st\<lparr>lastIsAliveCallTimestamp := now st\<rparr>)
            in if cl_socketStatus cl = Connected \<and> pythonDisconnectedTimeout st1 = None
               then pythonReconnect st1
               else st1))"

definition probePeriod :: "socket_status \<Rightarrow> nat" where
  "probePeriod s = (if s = ConnectingPython then 5000 else 30000)"

text \<open>The liveness effect returns the handle of its interval, which its cleanup clears;
  a superseded render sets no interval and has no cleanup.\<close>

definition livenessEffect :: "closure \<Rightarrow> client \<Rightarrow> nat option \<times> client" where
  "livenessEffect cl st =
     (if cl_instanceId cl \<noteq> instances st then (None, st)
      else (let (h, st1) = setInterval (IsAliveFire cl) (probePeriod (cl_socketStatus cl)) st
            in (Some h,
                if cl_socketStatus cl = ConnectingPython
                   \<and> now st1 > lastIsAliveCallTimestamp st1 + 5000
                then isAlive cl st1
                else st1)))"

definition livenessCleanup :: "nat option \<Rightarrow> client \<Rightarrow> client" where
  "livenessCleanup interval st = (case interval of None \<Rightarrow> st | Some h \<Rightarrow> clearInterval h st)"

subsection \<open>The environment: time, timers firing, the transport\<close>

definition advance :: "nat \<Rightarrow> client \<Rightarrow> client" where
  "advance d st = st\<lparr>now := now st + d\<rparr>"

fun runAction :: "timer_action \<Rightarrow> client \<Rightarrow> client" where
  "runAction (ReconnectFire cl) st =
     connect cl (st\<lparr>reconnectTimeoutRef := (reconnectTimeoutRef st)(cl_hook cl := None)\<rparr>)"
| "runAction PythonDisconnectedFire st = setSocketStatus ConnectingPython st"
| "runAction (OpenResultsPanelFire p) st = setOpenResultsPanelRequest p st"
| "runAction (IsAliveFire cl) st = isAlive cl st"

text \<open>A pending timer fires once it is due: a timeout leaves the queue, an interval is
  queued again one period later; then the callback runs. Firing a handle that is not
  pending, or not yet due, is \<open>None\<close>.\<close>

definition fireTimer :: "nat \<Rightarrow> client \<Rightarrow> client option" where
  "fireTimer h st =
     (case find (\<lambda>t. tid t = h) (timers st) of
        None \<Rightarrow> None
      | Some t \<Rightarrow>
          if now st < due t then None
          else Some (runAction (action t)
                 (st\<lparr>timers :=
                      (case period t of
                         None \<Rightarrow> filter (\<lambda>u. tid u \<noteq> h) (timers st)
                       | Some d \<Rightarrow> map (\<lambda>u. if tid u = h then u\<lparr>due := now st + d\<rparr> else u)
                                    (timers st))\<rparr>)))"

text \<open>The browser reports the loss of the transport by a \<open>close\<close> or an \<open>error\<close> event on
  the socket, whose \<open>readyState\<close> is \<open>CLOSED\<close> by then; it reports an opened transport by
  \<open>open\<close>, with \<open>readyState\<close> \<open>OPEN\<close>; a frame arrives at the socket's \<open>onmessage\<close>.\<close>

datatype transport_loss = CloseEvent | ErrorOnSocket

definition setReadyState :: "ready_state \<Rightarrow> client \<Rightarrow> client" where
  "setReadyState r st = st\<lparr>socketInstance := map_option (\<lambda>s. s\<lparr>readyState := r\<rparr>) (socketInstance st)\<rparr>"

definition transportLost :: "transport_loss \<Rightarrow> closure \<Rightarrow> client \<Rightarrow> client" where
  "transportLost l cl st =
     (case l of
        CloseEvent \<Rightarrow> onclose cl (setReadyState CLOSED st)
      | ErrorOnSocket \<Rightarrow> onerror cl (setReadyState CLOSED st))"

definition transportOpened :: "client \<Rightarrow> client" where
  "transportOpened st = onopen (setReadyState OPEN st)"

definition messageArrives :: "server_event \<Rightarrow> client \<Rightarrow> client" where
  "messageArrives ev st =
     (case socketInstance st of
        None \<Rightarrow> st
      | Some s \<Rightarrow> (case onmessage s of None \<Rightarrow> st | Some cl \<Rightarrow> handleMessage cl ev st))"

text \<open>The clock runs on to the time the timer \<open>h\<close> is due, and the timer fires;
  \<open>fireRounds h k\<close> does so \<open>k\<close> times in a row, with no other event between.\<close>

definition fireAtDue :: "nat \<Rightarrow> client \<Rightarrow> client option" where
  "fireAtDue h st =
     (case find (\<lambda>t. tid t = h) (timers st) of
        None \<Rightarrow> None
      | Some t \<Rightarrow> fireTimer h (st\<lparr>now := max (now st) (due t)\<rparr>))"

fun fireRounds :: "nat \<Rightarrow> nat \<Rightarrow> client \<Rightarrow> client option" where
  "fireRounds h 0 st = Some st"
| "fireRounds h (Suc k) st =
     (case fireAtDue h st of None \<Rightarrow> None | Some s \<Rightarrow> fireRounds h k s)"

text \<open>What a probe does to the outside: the frame goes out, or \<open>sendMessage\<close> logs
  its error.\<close>

definition probeOutcome :: "client \<Rightarrow> effect" where
  "probeOutcome st =
     (if socketOpen st then Sent IsAlive
      else ConsoleError ''Cannot send message: WebSocket is not connected'')"

subsection \<open>The initial state and the reachable states\<close>

text \<open>The module starts with no socket, no liveness timeout, no instance and a last probe
  at time 0; every hook instance starts with an empty ref. The store (not among the sources)
  is taken to start disconnected, with an empty workflow; the clock starts at 0 and the
  first timer handle is 1.\<close>

definition initialClient :: client where
  "initialClient =
     \<lparr>socketInstance = None, pythonDisconnectedTimeout = None, instances = 0,
      lastIsAliveCallTimestamp = 0, reconnectTimeoutRef = (\<lambda>k. None),
      socketStatus = Disconnected, nodes = [], componentStates = Map.empty,
      execution = None, evaluation = None, optimization = None, selectedNode = None,
      propertiesExpanded = False, openResultsPanelRequest = None, playgroundOpen = False,
      now = 0, timers = [], nextTimerId = 1, effects = []\<rparr>"

text \<open>The rest of the page edits the workflow in the store: the graph, the execution
  states, the selection, the playground.\<close>

definition editWorkflow ::
  "string list \<Rightarrow> (string \<rightharpoonup> execution_state) \<Rightarrow> execution_state option \<Rightarrow> run_state option \<Rightarrow>
   run_state option \<Rightarrow> bool \<Rightarrow> client \<Rightarrow> client" where
  "editWorkflow ns cs ex ev opt pg st =
     st\<lparr>nodes := ns, componentStates := cs, execution := ex, evaluation := ev,
        optimization := opt, playgroundOpen := pg\<rparr>"

text \<open>The states the client can be in: whatever the initial state becomes under renders
  and effects of any hook instances, calls of the hook's API, events of the transport,
  messages, timers firing, time passing and edits of the workflow, in any order, with any
  closures and any handles.\<close>

inductive reachable :: "client \<Rightarrow> bool" where
  r_init: "reachable initialClient"
| r_render: "reachable st \<Longrightarrow> reachable (snd (render k p st))"
| r_unmount: "reachable st \<Longrightarrow> reachable (unmountEffect st)"
| r_rebind: "reachable st \<Longrightarrow> reachable (rebindEffect cl st)"
| r_liveness: "reachable st \<Longrightarrow> reachable (snd (livenessEffect cl st))"
| r_cleanup: "reachable st \<Longrightarrow> reachable (livenessCleanup interval st)"
| r_connect: "reachable st \<Longrightarrow> reachable (connect cl st)"
| r_disconnect: "reachable st \<Longrightarrow> reachable (disconnect cl st)"
| r_send: "reachable st \<Longrightarrow> reachable (sendMessage event st)"
| r_opened: "reachable st \<Longrightarrow> reachable (transportOpened st)"
| r_lost: "reachable st \<Longrightarrow> reachable (transportLost l cl st)"
| r_onopen: "reachable st \<Longrightarrow> reachable (onopen st)"
| r_onclose: "reachable st \<Longrightarrow> reachable (onclose cl st)"
| r_onerror: "reachable st \<Longrightarrow> reachable (onerror cl st)"
| r_message: "reachable st \<Longrightarrow> reachable (handleMessage cl ev st)"
| r_fire: "reachable st \<Longrightarrow> fireTimer h st = Some st' \<Longrightarrow> reachable st'"
| r_advance: "reachable st \<Longrightarrow> reachable (advance d st)"
| r_edit: "reachable st \<Longrightarrow> reachable (editWorkflow ns cs ex ev opt pg st)"

subsection \<open>Invariants of the timer queue\<close>

definition isReconnect :: "timer \<Rightarrow> bool" where
  "isReconnect t = (case action t of ReconnectFire cl \<Rightarrow> True | _ \<Rightarrow> False)"

text \<open>The retries of the hook instance \<open>k\<close>.\<close>

definition isReconnectOf :: "nat \<Rightarrow> timer \<Rightarrow> bool" where
  "isReconnectOf k t = (case action t of ReconnectFire cl \<Rightarrow> cl_hook cl = k | _ \<Rightarrow> False)"

definition isLiveness :: "timer \<Rightarrow> bool" where
  "isLiveness t = (action t = PythonDisconnectedFire)"

definition isProbe :: "timer \<Rightarrow> bool" where
  "isProbe t = (case action t of IsAliveFire cl \<Rightarrow> True | _ \<Rightarrow> False)"

definition pendingReconnects :: "client \<Rightarrow> timer list" where
  "pendingReconnects st = filter isReconnect (timers st)"

definition pendingReconnectsOf :: "nat \<Rightarrow> client \<Rightarrow> timer list" where
  "pendingReconnectsOf k st = filter (isReconnectOf k) (timers st)"

definition pendingLiveness :: "client \<Rightarrow> timer list" where
  "pendingLiveness st = filter isLiveness (timers st)"

text \<open>Handles are not reused, and only the probe is an interval.\<close>

definition timersWf :: "timer list \<Rightarrow> nat \<Rightarrow> bool" where
  "timersWf ts n =
     (distinct (map tid ts)
      \<and> list_all (\<lambda>t. tid t < n) ts
      \<and> list_all (\<lambda>t. period t = None \<or> isProbe t) ts)"

text \<open>A variable \<open>v\<close> that holds the handle of the timers of one kind: a pending timer is
  of that kind exactly when \<open>v\<close> holds its handle, and \<open>v\<close> holds no handle of the future.\<close>

definition holdsHandle :: "(timer \<Rightarrow> bool) \<Rightarrow> nat option \<Rightarrow> timer list \<Rightarrow> nat \<Rightarrow> bool" where
  "holdsHandle kind v ts n =
     (list_all (\<lambda>t. kind t = (v = Some (tid t))) ts
      \<and> (case v of None \<Rightarrow> True | Some h \<Rightarrow> h < n))"

text \<open>The pending liveness timeout, if any, is the timer \<open>pythonDisconnectedTimeout\<close>
  holds, and the pending retry of each hook instance, if any, is the timer its ref holds.\<close>

definition inv :: "client \<Rightarrow> bool" where
  "inv st =
     (timersWf (timers st) (nextTimerId st)
      \<and> holdsHandle isLiveness (pythonDisconnectedTimeout st) (timers st) (nextTimerId st)
      \<and> (\<forall>k. holdsHandle (isReconnectOf k) (reconnectTimeoutRef st k) (timers st)
                (nextTimerId st)))"

subsection \<open>A run of the client\<close>

text \<open>The hook instance 1 renders for a project, connects, and the transport opens; the runtime
  answers the first probe; the hook renders again, now connected, and sets its probe
  interval; 30 seconds later the probe fires and arms the liveness timeout.\<close>

definition firstRender :: "closure \<times> client" where
  "firstRender = render 1 (Some ''project_1'') initialClient"

definition openedClient :: client where
  "openedClient = transportOpened (connect (fst firstRender) (snd firstRender))"

definition connectedClient :: client where
  "connectedClient = handleMessage (fst firstRender) IsAliveResponse openedClient"

definition secondRender :: "closure \<times> client" where
  "secondRender = render 1 (Some ''project_1'') connectedClient"

definition probingClient :: client where
  "probingClient =
     snd (livenessEffect (fst secondRender) (rebindEffect (fst secondRender) (snd secondRender)))"

definition probedClient :: client where
  "probedClient =
     (case fireTimer 1 (advance 30000 probingClient) of None \<Rightarrow> probingClient | Some s \<Rightarrow> s)"

text \<open>Then the server reports that the runtime is unreachable.\<close>

definition unreachableMessage :: string where
  "unreachableMessage = ''LLM provider runtime is unreachable''"

definition unreachableClient :: client where
  "unreachableClient = handleMessage (fst secondRender) (ErrorEvent unreachableMessage) probedClient"

text \<open>Or the transport is lost: the socket reports an error and then closes.\<close>

definition lostClient :: client where
  "lostClient =
     transportLost CloseEvent (fst firstRender)
       (transportLost ErrorOnSocket (fst firstRender) probedClient)"

text \<open>A workflow of two nodes, one finished and one still running.\<close>

definition runningState :: execution_state where
  "runningState =
     \<lparr>es_status = Running, es_error = None, es_finished_at = None, es_until_node_id = None\<rparr>"

definition runningClient :: client where
  "runningClient =
     editWorkflow [''entry'', ''llm_call'']
       [''entry'' \<mapsto> runningState\<lparr>es_status := Success, es_finished_at := Some 0\<rparr>,
        ''llm_call'' \<mapsto> runningState]
       (Some runningState) None None False connectedClient"

text \<open>Two evaluation runs: \<open>B\<close> was started first, \<open>A\<close> after it.\<close>

definition runB :: run_state where
  "runB = \<lparr>rs_status = Running, rs_run_id = Some ''B'', rs_progress = Some 9, rs_total = Some 10,
            rs_stdout = None, rs_error = None\<rparr>"

definition runA :: run_state where
  "runA = \<lparr>rs_status = Running, rs_run_id = Some ''A'', rs_progress = Some 1, rs_total = Some 10,
            rs_stdout = None, rs_error = None\<rparr>"

text \<open>The closures of the two renders, and the error state the server reports.\<close>

definition cl1 :: closure where
  "cl1 = \<lparr>cl_hook = 1, cl_instanceId = 1, cl_socketStatus = Disconnected, cl_playgroundOpen = False,
           cl_project = Some ''project_1''\<rparr>"

definition cl2 :: closure where
  "cl2 = \<lparr>cl_hook = 1, cl_instanceId = 2, cl_socketStatus = Connected, cl_playgroundOpen = False,
           cl_project = Some ''project_1''\<rparr>"

definition failedState :: execution_state where
  "failedState =
     \<lparr>es_status = Error, es_error = Some unreachableMessage, es_finished_at = None,
      es_until_node_id = None\<rparr>"

text \<open>A second run, with two hook instances: a second component mounts the hook before
  the first connects, and each instance calls \<open>connect()\<close>, the second while the socket of
  the first is still connecting, so that it opens a socket of its own.\<close>

definition otherRender :: "closure \<times> client" where
  "otherRender = render 2 (Some ''project_1'') (snd firstRender)"

definition cl3 :: closure where
  "cl3 = \<lparr>cl_hook = 2, cl_instanceId = 2, cl_socketStatus = Disconnected,
           cl_playgroundOpen = False, cl_project = Some ''project_1''\<rparr>"

definition twoSockets :: client where
  "twoSockets = connect (fst otherRender) (connect (fst firstRender) (snd otherRender))"

text \<open>Both sockets fail, 3 milliseconds apart; 5 seconds later the retries fire.\<close>

definition bothLost :: client where
  "bothLost = onerror (fst otherRender) (advance 3 (onerror (fst firstRender) twoSockets))"

definition bothRetried :: "client option" where
  "bothRetried =
     (case fireTimer 1 (advance 4997 bothLost) of
        None \<Rightarrow> None
      | Some s \<Rightarrow> fireTimer 2 (advance 3 s))"

text \<open>Or only the socket of the first instance fails, and the second instance calls
  \<open>disconnect()\<close>.\<close>

definition otherDisconnected :: client where
  "otherDisconnected =
     disconnect (fst otherRender)
       (onerror (fst firstRender) (connect (fst firstRender) (snd otherRender)))"

section \<open>Properties\<close>

subsection \<open>Lists of timers\<close>

lemma timersWf_filter: "timersWf ts n \<Longrightarrow> timersWf (filter P ts) n"
  by (simp add: timersWf_def list_all_iff distinct_map_filter)

lemma timersWf_append:
  "timersWf ts n \<Longrightarrow> tid t = n \<Longrightarrow> period t = None \<or> isProbe t \<Longrightarrow> timersWf (ts @ [t]) (Suc n)"
  by (auto simp: timersWf_def list_all_iff)

lemma tid_rearm: "tid \<circ> (\<lambda>u. if tid u = h then u\<lparr>due := d\<rparr> else u) = tid"
  by (auto simp: fun_eq_iff)

lemma timersWf_rearm:
  "timersWf ts n \<Longrightarrow> timersWf (map (\<lambda>u. if tid u = h then u\<lparr>due := d\<rparr> else u) ts) n"
  by (auto simp: timersWf_def list_all_iff tid_rearm isProbe_def)

lemma holdsHandle_filter: "holdsHandle k v ts n \<Longrightarrow> holdsHandle k v (filter P ts) n"
  by (simp add: holdsHandle_def list_all_iff)

lemma holdsHandle_clear:
  "holdsHandle k (Some h) ts n \<Longrightarrow> holdsHandle k None (filter (\<lambda>t. tid t \<noteq> h) ts) n"
  by (simp add: holdsHandle_def list_all_iff)

lemma holdsHandle_append_other:
  "holdsHandle k v ts n \<Longrightarrow> \<not> k t \<Longrightarrow> tid t = n \<Longrightarrow> holdsHandle k v (ts @ [t]) (Suc n)"
  by (cases v) (auto simp: holdsHandle_def list_all_iff)

lemma holdsHandle_append_own:
  "holdsHandle k None ts n \<Longrightarrow> list_all (\<lambda>t. tid t < n) ts \<Longrightarrow> k t \<Longrightarrow> tid t = n \<Longrightarrow>
   holdsHandle k (Some n) (ts @ [t]) (Suc n)"
  by (auto simp: holdsHandle_def list_all_iff)

lemma holdsHandle_rearm:
  "(\<And>u. k (u\<lparr>due := d\<rparr>) = k u) \<Longrightarrow> holdsHandle k v ts n \<Longrightarrow>
   holdsHandle k v (map (\<lambda>u. if tid u = h then u\<lparr>due := d\<rparr> else u) ts) n"
  by (auto simp: holdsHandle_def list_all_iff)

lemma holdsHandle_member:
  "holdsHandle k v ts n \<Longrightarrow> t \<in> set ts \<Longrightarrow> k t = (v = Some (tid t))"
  by (simp add: holdsHandle_def list_all_iff)

lemma find_tid:
  "find (\<lambda>t. tid t = h) ts = Some t \<Longrightarrow> t \<in> set ts \<and> tid t = h"
  by (induction ts) (auto split: if_splits)

lemma not_isReconnectOf: "\<not> isReconnect t \<Longrightarrow> \<not> isReconnectOf k t"
  by (simp add: isReconnect_def isReconnectOf_def split: timer_action.splits)

subsection \<open>Frame\<close>

lemma invI:
  assumes "timersWf (timers st) (nextTimerId st)"
    "holdsHandle isLiveness (pythonDisconnectedTimeout st) (timers st) (nextTimerId st)"
    "\<And>k. holdsHandle (isReconnectOf k) (reconnectTimeoutRef st k) (timers st) (nextTimerId st)"
  shows "inv st"
  using assms by (simp add: inv_def)

lemma invD:
  assumes "inv st"
  shows "timersWf (timers st) (nextTimerId st)"
    and "holdsHandle isLiveness (pythonDisconnectedTimeout st) (timers st) (nextTimerId st)"
    and "holdsHandle (isReconnectOf k) (reconnectTimeoutRef st k) (timers st) (nextTimerId st)"
  using assms by (simp_all add: inv_def)

lemma inv_frame:
  assumes "timers s' = timers s" "nextTimerId s' = nextTimerId s"
    "pythonDisconnectedTimeout s' = pythonDisconnectedTimeout s"
    "reconnectTimeoutRef s' = reconnectTimeoutRef s"
  shows "inv s' = inv s"
  using assms by (simp add: inv_def)

lemma inv_keep:
  assumes "inv s" "timers s' = timers s" "nextTimerId s' = nextTimerId s"
    "pythonDisconnectedTimeout s' = pythonDisconnectedTimeout s"
    "reconnectTimeoutRef s' = reconnectTimeoutRef s"
  shows "inv s'"
  using assms inv_frame [of s' s] by simp

lemma stopRunningNodes_frame [simp]:
  "timers (stopRunningNodes m ns st) = timers st"
  "nextTimerId (stopRunningNodes m ns st) = nextTimerId st"
  "pythonDisconnectedTimeout (stopRunningNodes m ns st) = pythonDisconnectedTimeout st"
  "reconnectTimeoutRef (stopRunningNodes m ns st) = reconnectTimeoutRef st"
  "socketStatus (stopRunningNodes m ns st) = socketStatus st"
  "now (stopRunningNodes m ns st) = now st"
  "nodes (stopRunningNodes m ns st) = nodes st"
  "effects (stopRunningNodes m ns st) = effects st"
  "socketInstance (stopRunningNodes m ns st) = socketInstance st"
  by (induction ns arbitrary: st; auto simp: setComponentExecutionState_def)+

lemma stopWorkflowIfRunning_frame [simp]:
  "timers (stopWorkflowIfRunning m st) = timers st"
  "nextTimerId (stopWorkflowIfRunning m st) = nextTimerId st"
  "pythonDisconnectedTimeout (stopWorkflowIfRunning m st) = pythonDisconnectedTimeout st"
  "reconnectTimeoutRef (stopWorkflowIfRunning m st) = reconnectTimeoutRef st"
  "socketStatus (stopWorkflowIfRunning m st) = socketStatus st"
  "now (stopWorkflowIfRunning m st) = now st"
  "nodes (stopWorkflowIfRunning m st) = nodes st"
  "effects (stopWorkflowIfRunning m st) = effects st"
  "socketInstance (stopWorkflowIfRunning m st) = socketInstance st"
  by (simp_all add: stopWorkflowIfRunning_def Let_def setWorkflowExecutionState_def)

lemma alertOnError_frame [simp]:
  "timers (alertOnError m st) = timers st"
  "nextTimerId (alertOnError m st) = nextTimerId st"
  "pythonDisconnectedTimeout (alertOnError m st) = pythonDisconnectedTimeout st"
  "reconnectTimeoutRef (alertOnError m st) = reconnectTimeoutRef st"
  "socketStatus (alertOnError m st) = socketStatus st"
  "now (alertOnError m st) = now st"
  "nodes (alertOnError m st) = nodes st"
  "componentStates (alertOnError m st) = componentStates st"
  "socketInstance (alertOnError m st) = socketInstance st"
  by (simp_all add: alertOnError_def emit_def)

lemma checkIfUnreachable_frame [simp]:
  "timers (checkIfUnreachableErrorMessage cl m st) = timers st"
  "nextTimerId (checkIfUnreachableErrorMessage cl m st) = nextTimerId st"
  "pythonDisconnectedTimeout (checkIfUnreachableErrorMessage cl m st) = pythonDisconnectedTimeout st"
  "reconnectTimeoutRef (checkIfUnreachableErrorMessage cl m st) = reconnectTimeoutRef st"
  "now (checkIfUnreachableErrorMessage cl m st) = now st"
  "nodes (checkIfUnreachableErrorMessage cl m st) = nodes st"
  "componentStates (checkIfUnreachableErrorMessage cl m st) = componentStates st"
  "socketInstance (checkIfUnreachableErrorMessage cl m st) = socketInstance st"
  by (simp_all add: checkIfUnreachableErrorMessage_def setSocketStatus_def)

subsection \<open>Adding and removing timers\<close>

lemma inv_remove:
  assumes "inv st"
  shows "inv (st\<lparr>timers := filter P (timers st)\<rparr>)"
  using assms by (simp add: inv_def timersWf_filter holdsHandle_filter)

lemma inv_add_other:
  assumes "inv st" "\<not> isReconnect t" "\<not> isLiveness t" "period t = None \<or> isProbe t"
    "tid t = nextTimerId st"
  shows "inv (st\<lparr>timers := timers st @ [t], nextTimerId := nextTimerId st + 1\<rparr>)"
  using assms
  by (simp add: inv_def timersWf_append holdsHandle_append_other not_isReconnectOf)

lemma inv_clearTimeout: "inv st \<Longrightarrow> inv (clearTimeout h st)"
  unfolding clearTimeout_def by (rule inv_remove)

subsection \<open>Every operation keeps the invariant\<close>

lemma inv_initial: "inv initialClient"
  by (simp add: inv_def timersWf_def holdsHandle_def initialClient_def)

lemma inv_render: "inv st \<Longrightarrow> inv (snd (render k p st))"
  by (erule inv_keep) (simp_all add: render_def Let_def)

lemma inv_unmountEffect: "inv st \<Longrightarrow> inv (unmountEffect st)"
  by (erule inv_keep) (simp_all add: unmountEffect_def)

lemma inv_rebindEffect: "inv st \<Longrightarrow> inv (rebindEffect cl st)"
  by (erule inv_keep) (simp_all add: rebindEffect_def split: option.split)

lemma inv_emit: "inv (emit e st) = inv st"
  by (rule inv_frame) (simp_all add: emit_def)

lemma inv_setSocketStatus: "inv (setSocketStatus s st) = inv st"
  by (rule inv_frame) (simp_all add: setSocketStatus_def)

lemma inv_sendMessage: "inv (sendMessage ev st) = inv st"
  by (simp add: sendMessage_def inv_emit)

lemma inv_connect: "inv st \<Longrightarrow> inv (connect cl st)"
  by (erule inv_keep) (simp_all add: connect_def emit_def setSocketStatus_def split: option.split)

lemma inv_scheduleReconnect: "inv st \<Longrightarrow> inv (scheduleReconnect cl st)"
proof (cases "reconnectTimeoutRef st (cl_hook cl)")
  case None
  assume i: "inv st"
  let ?t = "\<lparr>tid = nextTimerId st, due = now st + 5000, period = None, action = ReconnectFire cl\<rparr>"
  have s: "scheduleReconnect cl st =
      st\<lparr>timers := timers st @ [?t], nextTimerId := nextTimerId st + 1,
         reconnectTimeoutRef := (reconnectTimeoutRef st)(cl_hook cl := Some (nextTimerId st))\<rparr>"
    using None by (simp add: scheduleReconnect_def setTimeout_def)
  have below: "list_all (\<lambda>t. tid t < nextTimerId st) (timers st)"
    using invD(1) [OF i] by (simp add: timersWf_def)
  show ?thesis
    unfolding s
  proof (rule invI)
    show "timersWf (timers (st\<lparr>timers := timers st @ [?t], nextTimerId := nextTimerId st + 1,
         reconnectTimeoutRef := (reconnectTimeoutRef st)(cl_hook cl := Some (nextTimerId st))\<rparr>))
         (nextTimerId (st\<lparr>timers := timers st @ [?t], nextTimerId := nextTimerId st + 1,
         reconnectTimeoutRef := (reconnectTimeoutRef st)(cl_hook cl := Some (nextTimerId st))\<rparr>))"
      using invD(1) [OF i] by (simp add: timersWf_append)
    show "holdsHandle isLiveness
         (pythonDisconnectedTimeout (st\<lparr>timers := timers st @ [?t], nextTimerId := nextTimerId st + 1,
         reconnectTimeoutRef := (reconnectTimeoutRef st)(cl_hook cl := Some (nextTimerId st))\<rparr>))
         (timers (st\<lparr>timers := timers st @ [?t], nextTimerId := nextTimerId st + 1,
         reconnectTimeoutRef := (reconnectTimeoutRef st)(cl_hook cl := Some (nextTimerId st))\<rparr>))
         (nextTimerId (st\<lparr>timers := timers st @ [?t], nextTimerId := nextTimerId st + 1,
         reconnectTimeoutRef := (reconnectTimeoutRef st)(cl_hook cl := Some (nextTimerId st))\<rparr>))"
      using invD(2) [OF i] by (simp add: holdsHandle_append_other isLiveness_def)
    fix k
    show "holdsHandle (isReconnectOf k)
         (reconnectTimeoutRef (st\<lparr>timers := timers st @ [?t], nextTimerId := nextTimerId st + 1,
         reconnectTimeoutRef := (reconnectTimeoutRef st)(cl_hook cl := Some (nextTimerId st))\<rparr>) k)
         (timers (st\<lparr>timers := timers st @ [?t], nextTimerId := nextTimerId st + 1,
         reconnectTimeoutRef := (reconnectTimeoutRef st)(cl_hook cl := Some (nextTimerId st))\<rparr>))
         (nextTimerId (st\<lparr>timers := timers st @ [?t], nextTimerId := nextTimerId st + 1,
         reconnectTimeoutRef := (reconnectTimeoutRef st)(cl_hook cl := Some (nextTimerId st))\<rparr>))"
    proof (cases "k = cl_hook cl")
      case True
      then show ?thesis
        using invD(3) [OF i, of k] None below
        by (simp add: holdsHandle_append_own isReconnectOf_def)
    next
      case False
      then show ?thesis
        using invD(3) [OF i, of k]
        by (simp add: holdsHandle_append_other isReconnectOf_def)
    qed
  qed
next
  case (Some h)
  assume "inv st"
  with Some show ?thesis by (simp add: scheduleReconnect_def)
qed

lemma inv_onopen: "inv st \<Longrightarrow> inv (onopen st)"
  by (erule inv_keep) (simp_all add: onopen_def setSocketStatus_def)

lemma inv_onclose: "inv st \<Longrightarrow> inv (onclose cl st)"
  by (simp add: onclose_def inv_scheduleReconnect inv_setSocketStatus)

lemma inv_onerror: "inv st \<Longrightarrow> inv (onerror cl st)"
  by (simp add: onerror_def inv_scheduleReconnect inv_setSocketStatus inv_emit)

lemma inv_setReadyState: "inv (setReadyState r st) = inv st"
  by (rule inv_frame) (simp_all add: setReadyState_def)

lemma inv_transportLost: "inv st \<Longrightarrow> inv (transportLost l cl st)"
  by (simp add: transportLost_def inv_onclose inv_onerror inv_setReadyState
      split: transport_loss.split)

lemma inv_transportOpened: "inv st \<Longrightarrow> inv (transportOpened st)"
  by (simp add: transportOpened_def inv_onopen inv_setReadyState)

lemma disconnect_fields:
  "socketInstance (disconnect cl st) = None"
  "socketStatus (disconnect cl st) = Disconnected"
  "reconnectTimeoutRef (disconnect cl st) = (reconnectTimeoutRef st)(cl_hook cl := None)"
  "pythonDisconnectedTimeout (disconnect cl st) = pythonDisconnectedTimeout st"
  "nextTimerId (disconnect cl st) = nextTimerId st"
  "effects (disconnect cl st)
     = effects st @ (case socketInstance st of None \<Rightarrow> [] | Some s \<Rightarrow> [CloseSocket])"
  "timers (disconnect cl st)
     = (case reconnectTimeoutRef st (cl_hook cl) of
          None \<Rightarrow> timers st
        | Some h \<Rightarrow> filter (\<lambda>t. tid t \<noteq> h) (timers st))"
  "now (disconnect cl st) = now st"
  by (auto simp: disconnect_def Let_def clearTimeout_def emit_def setSocketStatus_def
      fun_eq_iff split: option.split)

lemma inv_disconnect: "inv st \<Longrightarrow> inv (disconnect cl st)"
proof (rule invI)
  assume i: "inv st"
  show "timersWf (timers (disconnect cl st)) (nextTimerId (disconnect cl st))"
    using invD(1) [OF i]
    by (cases "reconnectTimeoutRef st (cl_hook cl)") (simp_all add: disconnect_fields timersWf_filter)
  show "holdsHandle isLiveness (pythonDisconnectedTimeout (disconnect cl st))
      (timers (disconnect cl st)) (nextTimerId (disconnect cl st))"
    using invD(2) [OF i]
    by (cases "reconnectTimeoutRef st (cl_hook cl)")
      (simp_all add: disconnect_fields holdsHandle_filter)
  fix k
  show "holdsHandle (isReconnectOf k) (reconnectTimeoutRef (disconnect cl st) k)
      (timers (disconnect cl st)) (nextTimerId (disconnect cl st))"
    using invD(3) [OF i, of k]
    by (cases "reconnectTimeoutRef st (cl_hook cl)")
      (auto simp: disconnect_fields holdsHandle_filter holdsHandle_clear)
qed

lemma inv_pythonReconnect:
  "inv st \<Longrightarrow> pythonDisconnectedTimeout st = None \<Longrightarrow> inv (pythonReconnect st)"
  by (simp add: pythonReconnect_def setTimeout_def inv_def timersWf_append
      holdsHandle_append_other holdsHandle_append_own isReconnectOf_def isLiveness_def
      timersWf_def [of "timers st"])

lemma sendMessage_pythonDisconnectedTimeout [simp]:
  "pythonDisconnectedTimeout (sendMessage ev st) = pythonDisconnectedTimeout st"
  by (simp add: sendMessage_def emit_def)

lemma inv_isAlive: "inv st \<Longrightarrow> inv (isAlive cl st)"
proof -
  assume i: "inv st"
  have "inv (st\<lparr>lastIsAliveCallTimestamp := now st\<rparr>)"
    using i by (rule inv_keep) simp_all
  then have "inv (sendMessage IsAlive (st\<lparr>lastIsAliveCallTimestamp := now st\<rparr>))"
    by (simp add: inv_sendMessage)
  then show ?thesis
    using i by (simp add: isAlive_def Let_def inv_pythonReconnect)
qed

lemma inv_setInterval_isAlive: "inv st \<Longrightarrow> inv (snd (setInterval (IsAliveFire cl) d st))"
  unfolding setInterval_def snd_conv
  by (rule inv_add_other) (simp_all add: isReconnect_def isProbe_def isLiveness_def)

lemma inv_livenessEffect: "inv st \<Longrightarrow> inv (snd (livenessEffect cl st))"
  by (simp add: livenessEffect_def Let_def split_beta inv_isAlive inv_setInterval_isAlive)

lemma inv_livenessCleanup: "inv st \<Longrightarrow> inv (livenessCleanup interval st)"
  by (simp add: livenessCleanup_def clearInterval_def inv_clearTimeout split: option.split)

lemma inv_advance: "inv st \<Longrightarrow> inv (advance d st)"
  by (erule inv_keep) (simp_all add: advance_def)

lemma inv_editWorkflow: "inv st \<Longrightarrow> inv (editWorkflow ns cs ex ev opt pg st)"
  by (erule inv_keep) (simp_all add: editWorkflow_def)

lemma inv_setTimeout_panel:
  "inv st \<Longrightarrow> inv (snd (setTimeout (OpenResultsPanelFire p) d st))"
  unfolding setTimeout_def snd_conv
  by (rule inv_add_other) (simp_all add: isReconnect_def isLiveness_def)

lemma inv_alertOnError: "inv (alertOnError m st) = inv st"
  by (rule inv_frame) simp_all

lemma inv_stopWorkflowIfRunning: "inv (stopWorkflowIfRunning m st) = inv st"
  by (rule inv_frame) simp_all

lemma inv_checkIfUnreachable: "inv (checkIfUnreachableErrorMessage cl m st) = inv st"
  by (rule inv_frame) simp_all

lemma inv_select: "inv (setPropertiesExpanded b (setSelectedNode i st)) = inv st"
  by (rule inv_frame) (simp_all add: setPropertiesExpanded_def setSelectedNode_def)

lemma inv_setters:
  "inv (setComponentExecutionState i es st) = inv st"
  "inv (setWorkflowExecutionState es st) = inv st"
  "inv (setEvaluationState rs st) = inv st"
  "inv (setOptimizationState rs st) = inv st"
  "inv (setOpenResultsPanelRequest p st) = inv st"
  by (rule inv_frame;
      simp add: setComponentExecutionState_def setWorkflowExecutionState_def
        setEvaluationState_def setOptimizationState_def setOpenResultsPanelRequest_def)+

lemma inv_isAliveResponse: "inv st \<Longrightarrow> inv (handleMessage cl IsAliveResponse st)"
  by (cases "pythonDisconnectedTimeout st")
    (simp_all add: inv_def setSocketStatus_def clearTimeout_def timersWf_filter
      holdsHandle_filter holdsHandle_clear)

lemma inv_handleMessage: "inv st \<Longrightarrow> inv (handleMessage cl ev st)"
proof (cases ev)
  case IsAliveResponse
  assume "inv st"
  then show ?thesis unfolding IsAliveResponse by (rule inv_isAliveResponse)
next
  case (ComponentStateChange i es)
  assume "inv st"
  then show ?thesis
    unfolding ComponentStateChange
    by (simp add: Let_def inv_emit inv_checkIfUnreachable inv_select inv_setters
        split: option.split)
next
  case (ExecutionStateChange es)
  assume "inv st"
  then show ?thesis
    unfolding ExecutionStateChange
    by (simp add: Let_def inv_stopWorkflowIfRunning inv_alertOnError inv_setters
        split: option.split)
next
  case (EvaluationStateChange rs)
  assume "inv st"
  then show ?thesis
    unfolding EvaluationStateChange
    by (simp add: Let_def inv_alertOnError inv_setTimeout_panel inv_setters
        split: option.split)
next
  case (OptimizationStateChange rs)
  assume "inv st"
  then show ?thesis
    unfolding OptimizationStateChange
    by (simp add: Let_def inv_alertOnError inv_setTimeout_panel inv_setters
        split: option.split)
next
  case (ErrorEvent m)
  assume "inv st"
  then show ?thesis
    unfolding ErrorEvent
    by (simp add: inv_alertOnError inv_stopWorkflowIfRunning inv_checkIfUnreachable)
next
  case Debug
  assume "inv st"
  with Debug show ?thesis by simp
next
  case Done
  assume "inv st"
  with Done show ?thesis by simp
next
  case (Unknown ty)
  assume "inv st"
  with Unknown show ?thesis by (simp add: inv_emit)
qed

lemma inv_rearm:
  assumes "inv st"
  shows "inv (st\<lparr>timers := map (\<lambda>u. if tid u = h then u\<lparr>due := d\<rparr> else u) (timers st)\<rparr>)"
  using assms
  by (simp add: inv_def timersWf_rearm holdsHandle_rearm isReconnectOf_def isLiveness_def)

lemma inv_fire_reconnect:
  assumes "inv st" "t \<in> set (timers st)" "action t = ReconnectFire cl"
  shows "inv (st\<lparr>timers := filter (\<lambda>u. tid u \<noteq> tid t) (timers st),
                reconnectTimeoutRef := (reconnectTimeoutRef st)(cl_hook cl := None)\<rparr>)"
proof (rule invI)
  let ?s = "st\<lparr>timers := filter (\<lambda>u. tid u \<noteq> tid t) (timers st),
                reconnectTimeoutRef := (reconnectTimeoutRef st)(cl_hook cl := None)\<rparr>"
  have "isReconnectOf (cl_hook cl) t" using assms(3) by (simp add: isReconnectOf_def)
  then have r: "reconnectTimeoutRef st (cl_hook cl) = Some (tid t)"
    using holdsHandle_member [OF invD(3) [OF assms(1), of "cl_hook cl"] assms(2)] by simp
  show "timersWf (timers ?s) (nextTimerId ?s)"
    using invD(1) [OF assms(1)] by (simp add: timersWf_filter)
  show "holdsHandle isLiveness (pythonDisconnectedTimeout ?s) (timers ?s) (nextTimerId ?s)"
    using invD(2) [OF assms(1)] by (simp add: holdsHandle_filter)
  fix k
  show "holdsHandle (isReconnectOf k) (reconnectTimeoutRef ?s k) (timers ?s) (nextTimerId ?s)"
    using invD(3) [OF assms(1), of k] r
    by (auto simp: holdsHandle_filter holdsHandle_clear)
qed

lemma inv_runAction_other:
  assumes "inv st" "\<And>cl. f \<noteq> ReconnectFire cl"
  shows "inv (runAction f st)"
  using assms
  by (cases f) (auto simp: inv_setSocketStatus inv_setters inv_isAlive)

lemma inv_fireTimer:
  assumes "inv st" "fireTimer h st = Some st'"
  shows "inv st'"
proof -
  from assms(2) obtain t where f: "find (\<lambda>t. tid t = h) (timers st) = Some t"
    by (auto simp: fireTimer_def split: option.splits)
  then have t: "t \<in> set (timers st)" "tid t = h" using find_tid by auto
  show ?thesis
  proof (cases "period t")
    case None
    have st': "st' = runAction (action t) (st\<lparr>timers := filter (\<lambda>u. tid u \<noteq> h) (timers st)\<rparr>)"
      using assms(2) f None by (auto simp: fireTimer_def split: if_splits)
    show ?thesis
    proof (cases "\<exists>cl. action t = ReconnectFire cl")
      case True
      then obtain cl where a: "action t = ReconnectFire cl" by blast
      show ?thesis
        using inv_fire_reconnect [OF assms(1) t(1) a] t(2)
        unfolding st' a by (simp add: inv_connect)
    next
      case False
      then show ?thesis
        unfolding st' using assms(1) by (intro inv_runAction_other inv_remove) auto
    qed
  next
    case (Some d)
    have st': "st' = runAction (action t)
        (st\<lparr>timers := map (\<lambda>u. if tid u = h then u\<lparr>due := now st + d\<rparr> else u) (timers st)\<rparr>)"
      using assms(2) f Some by (auto simp: fireTimer_def split: if_splits)
    have "isProbe t"
      using assms(1) t(1) Some by (auto simp: inv_def timersWf_def list_all_iff)
    then have "\<And>cl. action t \<noteq> ReconnectFire cl"
      by (auto simp: isProbe_def)
    then show ?thesis
      unfolding st' using assms(1) by (intro inv_runAction_other inv_rearm) auto
  qed
qed

lemma reachable_inv: "reachable st \<Longrightarrow> inv st"
proof (induction rule: reachable.induct)
  case r_init
  show ?case by (rule inv_initial)
qed (simp_all add: inv_render inv_unmountEffect inv_rebindEffect inv_livenessEffect
    inv_livenessCleanup inv_connect inv_disconnect inv_sendMessage inv_transportOpened
    inv_transportLost inv_onopen inv_onclose inv_onerror inv_handleMessage inv_fireTimer
    inv_advance inv_editWorkflow)

subsection \<open>What the dispatcher leaves alone\<close>

lemma handleMessage_execution_status:
  "socketStatus (handleMessage cl (ExecutionStateChange es) st) = socketStatus st"
  by (simp add: Let_def setWorkflowExecutionState_def split: option.split)

lemma checkIfUnreachable_connected:
  "cl_socketStatus cl = Connected \<Longrightarrow> lowerIncludes m ''runtime is unreachable'' \<Longrightarrow>
   socketStatus (checkIfUnreachableErrorMessage cl m st) = ConnectingPython"
  by (simp add: checkIfUnreachableErrorMessage_def setSocketStatus_def)

lemma handleMessage_error_status:
  "socketStatus (handleMessage cl (ErrorEvent m) st)
     = socketStatus (checkIfUnreachableErrorMessage cl (Some m) st)"
  by simp

lemma handleMessage_component_error_status:
  "es_status e = Error \<Longrightarrow>
   socketStatus (handleMessage cl (ComponentStateChange i (Some e)) st)
     = socketStatus (checkIfUnreachableErrorMessage cl (es_error e) (setComponentExecutionState i (Some e) st))"
  by (simp add: Let_def emit_def setPropertiesExpanded_def setSelectedNode_def)

lemma handleMessage_error_frame:
  "pythonDisconnectedTimeout (handleMessage cl (ErrorEvent m) st) = pythonDisconnectedTimeout st"
  "timers (handleMessage cl (ErrorEvent m) st) = timers st"
  by simp_all

subsection \<open>The cascade of a workflow error\<close>

lemma stopRunningNodes_componentStates:
  "componentStates (stopRunningNodes m ns st) j =
     (if \<exists>es. (j, es) \<in> set ns \<and> map_option es_status es = Some Running
      then Some (errorState m (now st))
      else componentStates st j)"
proof (induction ns arbitrary: st)
  case Nil
  then show ?case by simp
next
  case (Cons n ns)
  obtain i es where n: "n = (i, es)" by (cases n)
  show ?case
    unfolding n by (auto simp: Cons.IH setComponentExecutionState_def)
qed

lemma stopWorkflowIfRunning_componentStates:
  "componentStates (stopWorkflowIfRunning m st) j =
     (if j \<in> set (nodes st) \<and> map_option es_status (componentStates st j) = Some Running
      then Some (errorState m (now st))
      else componentStates st j)"
  by (auto simp: stopWorkflowIfRunning_def Let_def stopRunningNodes_componentStates
      getWorkflowNodes_def setWorkflowExecutionState_def)

subsection \<open>Disconnecting\<close>

lemma disconnect_idem: "disconnect cl (disconnect cl st) = disconnect cl st"
  by (simp add: disconnect_def Let_def clearTimeout_def emit_def setSocketStatus_def
      split: option.split)

lemma no_pending_kind:
  "holdsHandle k None ts n \<Longrightarrow> filter k ts = []"
  by (auto simp: holdsHandle_def list_all_iff filter_empty_conv)

lemma disconnect_pendingReconnects:
  assumes "inv st"
  shows "pendingReconnectsOf (cl_hook cl) (disconnect cl st) = []"
proof -
  have "holdsHandle (isReconnectOf (cl_hook cl))
          (reconnectTimeoutRef (disconnect cl st) (cl_hook cl)) (timers (disconnect cl st))
          (nextTimerId (disconnect cl st))"
    using inv_disconnect [OF assms] by (rule invD(3))
  then show ?thesis
    by (simp add: disconnect_fields(3) pendingReconnectsOf_def no_pending_kind)
qed

lemma disconnect_other_pending:
  assumes "inv st" and "k \<noteq> cl_hook cl"
  shows "pendingReconnectsOf k (disconnect cl st) = pendingReconnectsOf k st"
proof (cases "reconnectTimeoutRef st (cl_hook cl)")
  case None
  then show ?thesis by (simp add: pendingReconnectsOf_def disconnect_fields(7))
next
  case (Some h)
  have own: "\<forall>t \<in> set (timers st). tid t = h \<longrightarrow> isReconnectOf (cl_hook cl) t"
    using invD(3) [OF assms(1), of "cl_hook cl"] Some
    by (auto simp: holdsHandle_def list_all_iff)
  have "\<forall>t \<in> set (timers st). isReconnectOf k t \<longrightarrow> tid t \<noteq> h"
    using own assms(2) by (auto simp: isReconnectOf_def split: timer_action.splits)
  then have "filter (isReconnectOf k) (filter (\<lambda>t. tid t \<noteq> h) (timers st))
      = filter (isReconnectOf k) (timers st)"
    by (auto intro: filter_cong)
  then show ?thesis by (simp add: pendingReconnectsOf_def disconnect_fields(7) Some)
qed

subsection \<open>Scheduling a reconnect\<close>

lemma scheduleReconnect_fresh:
  assumes "reconnectTimeoutRef st (cl_hook cl) = None"
  shows "scheduleReconnect cl st =
     st\<lparr>timers := timers st @ [\<lparr>tid = nextTimerId st, due = now st + 5000, period = None,
                                   action = ReconnectFire cl\<rparr>],
        nextTimerId := nextTimerId st + 1,
        reconnectTimeoutRef := (reconnectTimeoutRef st)(cl_hook cl := Some (nextTimerId st))\<rparr>"
  using assms by (simp add: scheduleReconnect_def setTimeout_def)

lemma scheduleReconnect_pending:
  "reconnectTimeoutRef st (cl_hook cl) = Some h \<Longrightarrow> scheduleReconnect cl st = st"
  by (simp add: scheduleReconnect_def)

lemma not_open_after_loss [simp]: "\<not> socketOpen (setReadyState CLOSED st)"
  by (simp add: socketOpen_def setReadyState_def split: option.split)

lemma setReadyState_fields [simp]:
  "timers (setReadyState r st) = timers st"
  "nextTimerId (setReadyState r st) = nextTimerId st"
  "reconnectTimeoutRef (setReadyState r st) = reconnectTimeoutRef st"
  "now (setReadyState r st) = now st"
  by (simp_all add: setReadyState_def)

lemma transportLost_fresh:
  assumes "reconnectTimeoutRef st (cl_hook cl) = None"
  shows "timers (transportLost l cl st) =
           timers st @ [\<lparr>tid = nextTimerId st, due = now st + 5000, period = None,
                         action = ReconnectFire cl\<rparr>]"
    and "reconnectTimeoutRef (transportLost l cl st)
           = (reconnectTimeoutRef st)(cl_hook cl := Some (nextTimerId st))"
    and "now (transportLost l cl st) = now st"
    and "socketStatus (transportLost l cl st) = Disconnected"
  using assms
  by (simp_all add: transportLost_def onclose_def onerror_def scheduleReconnect_fresh
      setSocketStatus_def emit_def split: transport_loss.split)

lemma transportLost_pending:
  assumes "reconnectTimeoutRef st (cl_hook cl) = Some h"
  shows "timers (transportLost l cl st) = timers st"
    and "reconnectTimeoutRef (transportLost l cl st) = reconnectTimeoutRef st"
    and "now (transportLost l cl st) = now st"
    and "socketStatus (transportLost l cl st) = Disconnected"
    and "\<not> socketOpen (transportLost l cl st)"
  using assms
  by (simp_all add: transportLost_def onclose_def onerror_def scheduleReconnect_pending
      setSocketStatus_def setReadyState_def emit_def socketOpen_def
      split: transport_loss.split option.split)

lemma find_fresh:
  assumes "list_all (\<lambda>t. tid t < n) ts" "tid t = n"
  shows "find (\<lambda>u. tid u = n) (ts @ [t]) = Some t"
    and "filter (\<lambda>u. tid u \<noteq> n) (ts @ [t]) = ts"
  using assms by (induction ts) auto

lemma at_most_one_retry:
  assumes "inv st"
  shows "length (pendingReconnectsOf k st) \<le> 1"
proof -
  have d: "distinct (map tid (pendingReconnectsOf k st))"
    using invD(1) [OF assms] by (simp add: timersWf_def pendingReconnectsOf_def distinct_map_filter)
  have "\<forall>t \<in> set (pendingReconnectsOf k st). reconnectTimeoutRef st k = Some (tid t)"
    using invD(3) [OF assms, of k] by (auto simp: holdsHandle_def list_all_iff pendingReconnectsOf_def)
  then have "set (map tid (pendingReconnectsOf k st)) \<subseteq> set_option (reconnectTimeoutRef st k)"
    by (cases "reconnectTimeoutRef st k") auto
  then have "card (set (map tid (pendingReconnectsOf k st)))
      \<le> card (set_option (reconnectTimeoutRef st k))"
    by (intro card_mono) auto
  also have "\<dots> \<le> 1" by (cases "reconnectTimeoutRef st k") auto
  finally show ?thesis using distinct_card [OF d] by simp
qed

subsection \<open>Rounds of the probe interval\<close>

lemma find_rearm:
  "find (\<lambda>t. tid t = h) (map (\<lambda>u. if tid u = h then u\<lparr>due := d\<rparr> else u) ts)
     = map_option (\<lambda>t. t\<lparr>due := d\<rparr>) (find (\<lambda>t. tid t = h) ts)"
  by (induction ts) auto

lemma find_append_Some:
  "find P ts = Some t \<Longrightarrow> find P (ts @ us) = Some t"
  by (induction ts) (auto split: if_splits)

lemma isAlive_newest:
  assumes "cl_instanceId cl = instances st"
  shows "effects (isAlive cl st) = effects st @ [probeOutcome st]"
    and "now (isAlive cl st) = now st"
    and "instances (isAlive cl st) = instances st"
    and "socketInstance (isAlive cl st) = socketInstance st"
    and "lastIsAliveCallTimestamp (isAlive cl st) = now st"
    and "\<exists>us. timers (isAlive cl st) = timers st @ us"
  using assms
  by (simp_all add: isAlive_def Let_def sendMessage_def emit_def pythonReconnect_def
      setTimeout_def socketOpen_def probeOutcome_def)

lemma probe_round:
  assumes "inv s" "find (\<lambda>t. tid t = h) (timers s) = Some t" "period t = Some p"
    "action t = IsAliveFire cl" "cl_instanceId cl = instances s" "due t = now s + p"
  shows "\<exists>s' t'. fireAtDue h s = Some s' \<and> inv s'
           \<and> find (\<lambda>t. tid t = h) (timers s') = Some t' \<and> period t' = Some p
           \<and> action t' = IsAliveFire cl \<and> due t' = now s' + p
           \<and> instances s' = instances s \<and> socketInstance s' = socketInstance s
           \<and> now s' = now s + p
           \<and> effects s' = effects s @ [probeOutcome s]"
proof -
  let ?s0 = "s\<lparr>now := now s + p\<rparr>"
  let ?s1 = "?s0\<lparr>timers := map (\<lambda>u. if tid u = h then u\<lparr>due := now s + p + p\<rparr> else u) (timers s)\<rparr>"
  let ?t' = "t\<lparr>due := now s + p + p\<rparr>"
  have i0: "inv ?s0" using assms(1) by (rule inv_keep) simp_all
  have fire: "fireTimer h ?s0 = Some (isAlive cl ?s1)"
    using assms(2,3,4,6) by (simp add: fireTimer_def cong: if_cong)
  have at_due: "fireAtDue h s = Some (isAlive cl ?s1)"
    using assms(2,6) fire by (simp add: fireAtDue_def max_def)
  have i1: "inv (isAlive cl ?s1)" using inv_fireTimer [OF i0 fire] .
  have newest: "cl_instanceId cl = instances ?s1" using assms(5) by simp
  have f1: "find (\<lambda>t. tid t = h) (timers ?s1) = Some ?t'"
    using assms(2) by (simp add: find_rearm)
  obtain us where us: "timers (isAlive cl ?s1) = timers ?s1 @ us"
    using isAlive_newest(6) [OF newest] by blast
  have f2: "find (\<lambda>t. tid t = h) (timers (isAlive cl ?s1)) = Some ?t'"
    unfolding us using f1 by (rule find_append_Some)
  have open_same: "probeOutcome ?s1 = probeOutcome s"
    by (simp add: probeOutcome_def socketOpen_def)
  show ?thesis
    using at_due i1 f2 assms(3,4) isAlive_newest(1-4) [OF newest] open_same
    by simp
qed

lemma probe_rounds:
  assumes "inv s" "find (\<lambda>t. tid t = h) (timers s) = Some t" "period t = Some p"
    "action t = IsAliveFire cl" "cl_instanceId cl = instances s" "due t = now s + p"
  shows "\<exists>s'. fireRounds h k s = Some s' \<and> now s' = now s + k * p
           \<and> effects s' = effects s @ replicate k (probeOutcome s)"
  using assms
proof (induction k arbitrary: s t)
  case 0
  then show ?case by simp
next
  case (Suc k)
  from probe_round [OF Suc.prems] obtain s' t' where
    1: "fireAtDue h s = Some s'" "inv s'" "find (\<lambda>t. tid t = h) (timers s') = Some t'"
      "period t' = Some p" "action t' = IsAliveFire cl" "due t' = now s' + p"
      "instances s' = instances s" "socketInstance s' = socketInstance s"
      "now s' = now s + p" "effects s' = effects s @ [probeOutcome s]"
    by blast
  have newest: "cl_instanceId cl = instances s'" using 1(7) Suc.prems(5) by simp
  from Suc.IH [OF 1(2) 1(3) 1(4) 1(5) newest 1(6)] obtain s'' where
    2: "fireRounds h k s' = Some s''" "now s'' = now s' + k * p"
      "effects s'' = effects s' @ replicate k (probeOutcome s')"
    by blast
  have same: "probeOutcome s' = probeOutcome s"
    using 1(8) by (simp add: probeOutcome_def socketOpen_def)
  show ?case
    using 1(1,9,10) 2 same by (simp add: replicate_append_same)
qed

subsection \<open>The run of the client, evaluated\<close>

lemmas run_defs = render_def connect_def transportOpened_def setReadyState_def onopen_def
  socketOpen_def emit_def setSocketStatus_def Let_def rebindEffect_def
  livenessEffect_def setInterval_def probePeriod_def fireTimer_def advance_def isAlive_def
  sendMessage_def pythonReconnect_def setTimeout_def clearTimeout_def

lemmas loss_defs = onerror_def scheduleReconnect_def disconnect_def

lemma firstRender_val:
  "firstRender = (cl1, initialClient\<lparr>instances := 1\<rparr>)"
  by (simp add: firstRender_def run_defs initialClient_def cl1_def)

lemma openedClient_val:
  "openedClient =
     \<lparr>socketInstance = Some \<lparr>readyState = OPEN, onmessage = Some cl1\<rparr>,
      pythonDisconnectedTimeout = None, instances = 1,
      lastIsAliveCallTimestamp = 0, reconnectTimeoutRef = (\<lambda>k. None),
      socketStatus = ConnectingPython, nodes = [], componentStates = Map.empty,
      execution = None, evaluation = None, optimization = None, selectedNode = None,
      propertiesExpanded = False, openResultsPanelRequest = None, playgroundOpen = False,
      now = 0, timers = [], nextTimerId = 1, effects = [NewWebSocket ''project_1'']\<rparr>"
  by (simp add: openedClient_def firstRender_val run_defs initialClient_def cl1_def)

lemma connectedClient_val:
  "connectedClient = openedClient\<lparr>socketStatus := Connected\<rparr>"
  by (simp add: connectedClient_def openedClient_val run_defs)

lemma secondRender_val:
  "secondRender = (cl2, openedClient\<lparr>socketStatus := Connected, instances := 2\<rparr>)"
  by (simp add: secondRender_def connectedClient_val openedClient_val run_defs cl2_def)

lemma probingClient_val:
  "probingClient =
     openedClient\<lparr>socketStatus := Connected, instances := 2,
       socketInstance := Some \<lparr>readyState = OPEN, onmessage = Some cl2\<rparr>,
       timers := [\<lparr>tid = 1, due = 30000, period = Some 30000, action = IsAliveFire cl2\<rparr>],
       nextTimerId := 2\<rparr>"
  by (simp add: probingClient_def secondRender_val openedClient_val run_defs cl2_def)

lemma probe_fires:
  "fireTimer 1 (advance 30000 probingClient) =
     Some (openedClient\<lparr>socketStatus := Connected, instances := 2,
       socketInstance := Some \<lparr>readyState = OPEN, onmessage = Some cl2\<rparr>,
       timers := [\<lparr>tid = 1, due = 60000, period = Some 30000, action = IsAliveFire cl2\<rparr>,
                  \<lparr>tid = 2, due = 40000, period = None, action = PythonDisconnectedFire\<rparr>],
       nextTimerId := 3, now := 30000, lastIsAliveCallTimestamp := 30000,
       pythonDisconnectedTimeout := Some 2,
       effects := [NewWebSocket ''project_1'', Sent IsAlive]\<rparr>)"
  by (simp add: probingClient_val openedClient_val run_defs cl2_def)

lemma probedClient_val:
  "probedClient =
     openedClient\<lparr>socketStatus := Connected, instances := 2,
       socketInstance := Some \<lparr>readyState = OPEN, onmessage = Some cl2\<rparr>,
       timers := [\<lparr>tid = 1, due = 60000, period = Some 30000, action = IsAliveFire cl2\<rparr>,
                  \<lparr>tid = 2, due = 40000, period = None, action = PythonDisconnectedFire\<rparr>],
       nextTimerId := 3, now := 30000, lastIsAliveCallTimestamp := 30000,
       pythonDisconnectedTimeout := Some 2,
       effects := [NewWebSocket ''project_1'', Sent IsAlive]\<rparr>"
  unfolding probedClient_def probe_fires by simp

lemma reachable_opened: "reachable openedClient"
  unfolding openedClient_def firstRender_def
  by (intro r_opened r_connect r_render r_init)

lemma reachable_connected: "reachable connectedClient"
  unfolding connectedClient_def by (intro r_message reachable_opened)

lemma reachable_probing: "reachable probingClient"
  unfolding probingClient_def secondRender_def
  by (intro r_liveness r_rebind r_render reachable_connected)

lemma reachable_probed: "reachable probedClient"
  unfolding probedClient_val
  by (rule r_fire [OF r_advance [OF reachable_probing] probe_fires])

lemma probedClient_fields:
  "reconnectTimeoutRef probedClient = (\<lambda>k. None)"
  "nextTimerId probedClient = 3"
  "now probedClient = 30000"
  "pythonDisconnectedTimeout probedClient = Some 2"
  "socketInstance probedClient = Some \<lparr>readyState = OPEN, onmessage = Some cl2\<rparr>"
  "socketStatus probedClient = Connected"
  "timers probedClient =
     [\<lparr>tid = 1, due = 60000, period = Some 30000, action = IsAliveFire cl2\<rparr>,
      \<lparr>tid = 2, due = 40000, period = None, action = PythonDisconnectedFire\<rparr>]"
  by (simp_all add: probedClient_val openedClient_val)

lemma openedClient_fields:
  "reconnectTimeoutRef openedClient = (\<lambda>k. None)"
  "nextTimerId openedClient = 1"
  "now openedClient = 0"
  by (simp_all add: openedClient_val)

lemma cl1_project: "cl_project cl1 = Some ''project_1''"
  by (simp add: cl1_def)

lemma reachable_lost: "reachable lostClient"
  unfolding lostClient_def by (intro r_lost reachable_probed)

lemma cl1_hook: "cl_hook cl1 = 1" "cl_hook (fst firstRender) = 1"
  by (simp_all add: firstRender_val cl1_def)

lemma lostClient_ref: "reconnectTimeoutRef lostClient 1 = Some 3"
proof -
  have n: "reconnectTimeoutRef probedClient (cl_hook (fst firstRender)) = None"
    by (simp add: probedClient_fields(1))
  have "reconnectTimeoutRef (transportLost ErrorOnSocket (fst firstRender) probedClient)
      (cl_hook (fst firstRender)) = Some 3"
    by (simp add: transportLost_fresh(2) [OF n] probedClient_fields(2))
  then show ?thesis
    unfolding lostClient_def by (simp add: transportLost_pending(2) cl1_hook(2))
qed

lemma unreachableMessage_matches:
  "lowerIncludes (Some unreachableMessage) ''runtime is unreachable''"
  by code_simp

lemma probingClient_fields:
  "socketStatus probingClient = Connected"
  "socketInstance probingClient = Some \<lparr>readyState = OPEN, onmessage = Some cl2\<rparr>"
  by (simp_all add: probingClient_val openedClient_val)

lemma messageArrives_probing:
  "messageArrives ev probingClient = handleMessage cl2 ev probingClient"
  by (simp add: messageArrives_def probingClient_fields(2) del: handleMessage.simps)

lemma lostClient_status:
  "socketStatus lostClient = Disconnected" "\<not> socketOpen lostClient"
proof -
  have n: "reconnectTimeoutRef probedClient (cl_hook (fst firstRender)) = None"
    by (simp add: probedClient_fields(1))
  have "reconnectTimeoutRef (transportLost ErrorOnSocket (fst firstRender) probedClient)
      (cl_hook (fst firstRender)) = Some 3"
    by (simp add: transportLost_fresh(2) [OF n] probedClient_fields(2))
  then show "socketStatus lostClient = Disconnected" "\<not> socketOpen lostClient"
    unfolding lostClient_def by (rule transportLost_pending(4), rule transportLost_pending(5))
qed

subsection \<open>The run of two hook instances, evaluated\<close>

lemma otherRender_val:
  "otherRender = (cl3, initialClient\<lparr>instances := 2\<rparr>)"
  by (simp add: otherRender_def firstRender_val run_defs initialClient_def cl3_def)

lemma twoSockets_fields:
  "timers twoSockets = []"
  "nextTimerId twoSockets = 1"
  "now twoSockets = 0"
  "reconnectTimeoutRef twoSockets = (\<lambda>k. None)"
  "socketInstance twoSockets = Some \<lparr>readyState = CONNECTING, onmessage = Some cl3\<rparr>"
  "effects twoSockets = [NewWebSocket ''project_1'', NewWebSocket ''project_1'']"
  by (simp_all add: twoSockets_def otherRender_val firstRender_val run_defs initialClient_def
      cl1_def cl3_def)

lemma reachable_twoSockets: "reachable twoSockets"
  unfolding twoSockets_def otherRender_def firstRender_def
  by (intro r_connect r_render r_init)

lemma reachable_bothLost: "reachable bothLost"
  unfolding bothLost_def by (intro r_onerror r_advance reachable_twoSockets)

lemma bothLost_fields:
  "timers bothLost =
     [\<lparr>tid = 1, due = 5000, period = None, action = ReconnectFire cl1\<rparr>,
      \<lparr>tid = 2, due = 5003, period = None, action = ReconnectFire cl3\<rparr>]"
  "now bothLost = 3"
  "socketInstance bothLost = Some \<lparr>readyState = CONNECTING, onmessage = Some cl3\<rparr>"
  "effects bothLost =
     [NewWebSocket ''project_1'', NewWebSocket ''project_1'',
      ConsoleError ''WebSocket error:'', ConsoleError ''WebSocket error:'']"
  by (simp_all add: bothLost_def otherRender_val firstRender_val twoSockets_fields loss_defs
      setTimeout_def advance_def emit_def setSocketStatus_def cl1_def cl3_def)

lemma bothRetried_fields:
  "map_option effects bothRetried =
     Some [NewWebSocket ''project_1'', NewWebSocket ''project_1'',
           ConsoleError ''WebSocket error:'', ConsoleError ''WebSocket error:'',
           NewWebSocket ''project_1'', NewWebSocket ''project_1'']"
  "map_option timers bothRetried = Some []"
  by (simp_all add: bothRetried_def fireTimer_def advance_def bothLost_fields connect_def
      socketOpen_def emit_def setSocketStatus_def cl1_def cl3_def)

lemma otherDisconnected_fields:
  "timers otherDisconnected =
     [\<lparr>tid = 1, due = 5000, period = None, action = ReconnectFire cl1\<rparr>]"
  "now otherDisconnected = 0"
  "socketInstance otherDisconnected = None"
  "socketStatus otherDisconnected = Disconnected"
  "effects otherDisconnected =
     [NewWebSocket ''project_1'', ConsoleError ''WebSocket error:'', CloseSocket]"
  by (simp_all add: otherDisconnected_def otherRender_val firstRender_val loss_defs run_defs
      initialClient_def cl1_def cl3_def)

lemma reachable_otherDisconnected: "reachable otherDisconnected"
  unfolding otherDisconnected_def otherRender_def firstRender_def
  by (intro r_disconnect r_onerror r_connect r_render r_init)

section \<open>The claims\<close>

text \<open>
  C1 (cascade stop). When an \<open>execution_state_change\<close> event arrives whose execution state
  has status \<open>error\<close>, every node of the workflow whose component state was \<open>running\<close>
  gets the state \<open>error\<close> with the event's error message and the current time as
  \<open>finished_at\<close>, and afterwards no node of the workflow is \<open>running\<close>.
\<close>

theorem cascade_stop:
  "es_status e = Error \<Longrightarrow>
   (\<forall>i \<in> set (nodes st).
      map_option es_status (componentStates st i) = Some Running \<longrightarrow>
      (\<exists>c. componentStates (handleMessage cl (ExecutionStateChange (Some e)) st) i = Some c
           \<and> es_status c = Error \<and> es_error c = es_error e
           \<and> es_finished_at c = Some (now st)))
   \<and> (\<forall>i \<in> set (nodes st).
        map_option es_status
          (componentStates (handleMessage cl (ExecutionStateChange (Some e)) st) i)
        \<noteq> Some Running)"
  by (auto simp: stopWorkflowIfRunning_componentStates setWorkflowExecutionState_def
      errorState_def)

theorem cascade_stop_witness:
  "es_status failedState = Error
   \<and> nodes runningClient = [''entry'', ''llm_call'']
   \<and> map_option es_status (componentStates runningClient ''llm_call'') = Some Running
   \<and> (\<exists>c. componentStates
              (handleMessage cl2 (ExecutionStateChange (Some failedState)) runningClient)
              ''llm_call'' = Some c
          \<and> es_status c = Error \<and> es_error c = Some unreachableMessage
          \<and> es_finished_at c = Some (now runningClient))
   \<and> map_option es_status
         (componentStates (handleMessage cl2 (ExecutionStateChange (Some failedState)) runningClient)
            ''llm_call'')
       \<noteq> Some Running
   \<and> map_option es_status
         (componentStates (handleMessage cl2 (ExecutionStateChange (Some failedState)) runningClient)
            ''entry'')
       \<noteq> Some Running"
proof -
  have e: "es_status failedState = Error" by (simp add: failedState_def)
  have m: "es_error failedState = Some unreachableMessage" by (simp add: failedState_def)
  have n: "nodes runningClient = [''entry'', ''llm_call'']"
    by (simp add: runningClient_def editWorkflow_def)
  have c: "map_option es_status (componentStates runningClient ''llm_call'') = Some Running"
    by (simp add: runningClient_def editWorkflow_def runningState_def)
  have i: "''llm_call'' \<in> set (nodes runningClient)" "''entry'' \<in> set (nodes runningClient)"
    unfolding n by simp_all
  note t = cascade_stop [OF e, of runningClient cl2, unfolded m]
  from t i(1) c have 1: "\<exists>c. componentStates
              (handleMessage cl2 (ExecutionStateChange (Some failedState)) runningClient)
              ''llm_call'' = Some c
          \<and> es_status c = Error \<and> es_error c = Some unreachableMessage
          \<and> es_finished_at c = Some (now runningClient)"
    by blast
  from t i have 2: "map_option es_status
         (componentStates (handleMessage cl2 (ExecutionStateChange (Some failedState)) runningClient)
            ''llm_call'') \<noteq> Some Running"
     "map_option es_status
         (componentStates (handleMessage cl2 (ExecutionStateChange (Some failedState)) runningClient)
            ''entry'') \<noteq> Some Running"
    by blast+
  from e n c 1 2 show ?thesis by blast
qed

text \<open>
  C2 (staleness), as the code has it. The handler never compares run ids: an
  \<open>evaluation_state_change\<close> event replaces the stored evaluation state by the event's,
  whatever run the store held.
\<close>

theorem evaluation_state_replaced:
  "evaluation (handleMessage cl (EvaluationStateChange rs) st) = rs"
  by (simp add: Let_def setEvaluationState_def setTimeout_def alertOnError_def emit_def
      split: option.split)

text \<open>
  The claim as stated fails: run \<open>B\<close> is observed, then run \<open>A\<close> supersedes it and is the
  current run, \<open>running\<close>; a late message of run \<open>B\<close> then overwrites the state of \<open>A\<close>.
\<close>

theorem stale_evaluation_overwrites:
  "evaluation (handleMessage cl2 (EvaluationStateChange (Some runA))
       (handleMessage cl2 (EvaluationStateChange (Some runB)) connectedClient)) = Some runA
   \<and> rs_run_id runA = Some ''A'' \<and> rs_status runA = Running
   \<and> evaluation (handleMessage cl2 (EvaluationStateChange (Some runB))
       (handleMessage cl2 (EvaluationStateChange (Some runA))
          (handleMessage cl2 (EvaluationStateChange (Some runB)) connectedClient))) = Some runB
   \<and> rs_run_id runB = Some ''B''
   \<and> runB \<noteq> runA"
  by (simp add: runA_def runB_def setEvaluationState_def)

text \<open>
  C3 (unreachable runtime reported by \<open>execution_state_change\<close>). The code at the failing
  input: the client is connected, the socket's \<open>onmessage\<close> is the handler of the connected
  render, and the error message contains the phrase. The \<open>execution_state_change\<close> case
  never calls \<open>checkIfUnreachableErrorMessage\<close>, so the status stays \<open>connected\<close>; the
  \<open>error\<close> case and the \<open>component_state_change\<close> case, with the same message, do make
  the transition to \<open>connecting-python\<close>.
\<close>

theorem unreachable_execution_error_keeps_connected:
  "socketStatus probingClient = Connected
   \<and> socketInstance probingClient = Some \<lparr>readyState = OPEN, onmessage = Some cl2\<rparr>
   \<and> cl_socketStatus cl2 = Connected
   \<and> es_status failedState = Error
   \<and> lowerIncludes (es_error failedState) ''runtime is unreachable''
   \<and> socketStatus (messageArrives (ExecutionStateChange (Some failedState)) probingClient)
       = Connected
   \<and> socketStatus (messageArrives (ErrorEvent unreachableMessage) probingClient)
       = ConnectingPython
   \<and> socketStatus (messageArrives (ComponentStateChange ''llm_call'' (Some failedState))
         probingClient)
       = ConnectingPython"
proof -
  have f: "es_error failedState = Some unreachableMessage" "es_status failedState = Error"
    by (simp_all add: failedState_def)
  have c: "cl_socketStatus cl2 = Connected" by (simp add: cl2_def)
  have 1: "socketStatus (messageArrives (ExecutionStateChange (Some failedState)) probingClient)
       = Connected"
    unfolding messageArrives_probing handleMessage_execution_status
    by (rule probingClient_fields(1))
  have 2: "socketStatus (messageArrives (ErrorEvent unreachableMessage) probingClient)
       = ConnectingPython"
    unfolding messageArrives_probing handleMessage_error_status
    by (rule checkIfUnreachable_connected [OF c unreachableMessage_matches])
  have 3: "socketStatus (messageArrives (ComponentStateChange ''llm_call'' (Some failedState))
         probingClient) = ConnectingPython"
    unfolding messageArrives_probing handleMessage_component_error_status [OF f(2)] f(1)
    by (rule checkIfUnreachable_connected [OF c unreachableMessage_matches])
  from unreachableMessage_matches f c 1 2 3 probingClient_fields show ?thesis by metis
qed

text \<open>
  C4 (disconnect), as the code has it. After \<open>disconnect()\<close> there is no socket (the old
  one was closed), the status is \<open>disconnected\<close>, the ref of the hook instance that called
  it is empty and the retry that ref held is no longer pending (no retry of that instance
  is, in a reachable state); the refs and the pending retries of the other hook instances
  are as they were; and a second \<open>disconnect()\<close> of the same instance changes nothing.
\<close>

theorem disconnect_clears_retry:
  "socketInstance (disconnect cl st) = None
   \<and> \<not> socketOpen (disconnect cl st)
   \<and> effects (disconnect cl st)
       = effects st @ (case socketInstance st of None \<Rightarrow> [] | Some s \<Rightarrow> [CloseSocket])
   \<and> socketStatus (disconnect cl st) = Disconnected
   \<and> reconnectTimeoutRef (disconnect cl st) (cl_hook cl) = None
   \<and> (\<forall>h. reconnectTimeoutRef st (cl_hook cl) = Some h
          \<longrightarrow> h \<notin> tid ` set (timers (disconnect cl st)))
   \<and> (reachable st \<longrightarrow> pendingReconnectsOf (cl_hook cl) (disconnect cl st) = [])
   \<and> (\<forall>k. k \<noteq> cl_hook cl \<longrightarrow>
          reconnectTimeoutRef (disconnect cl st) k = reconnectTimeoutRef st k
          \<and> (reachable st \<longrightarrow>
                pendingReconnectsOf k (disconnect cl st) = pendingReconnectsOf k st))
   \<and> disconnect cl (disconnect cl st) = disconnect cl st"
proof -
  have "reachable st \<longrightarrow> pendingReconnectsOf (cl_hook cl) (disconnect cl st) = []"
    using reachable_inv [of st] by (simp add: disconnect_pendingReconnects)
  moreover have "\<forall>h. reconnectTimeoutRef st (cl_hook cl) = Some h
      \<longrightarrow> h \<notin> tid ` set (timers (disconnect cl st))"
    by (auto simp: disconnect_fields(7))
  moreover have "\<forall>k. k \<noteq> cl_hook cl \<longrightarrow>
          reconnectTimeoutRef (disconnect cl st) k = reconnectTimeoutRef st k
          \<and> (reachable st \<longrightarrow>
                pendingReconnectsOf k (disconnect cl st) = pendingReconnectsOf k st)"
    using reachable_inv [of st] by (simp add: disconnect_fields(3) disconnect_other_pending)
  ultimately show ?thesis
    by (simp add: disconnect_fields(1,2,3,6) disconnect_idem socketOpen_def)
qed

theorem disconnect_clears_retry_witness:
  "reachable lostClient
   \<and> cl_hook cl1 = 1
   \<and> reconnectTimeoutRef lostClient 1 = Some 3
   \<and> socketInstance (disconnect cl1 lostClient) = None
   \<and> socketStatus (disconnect cl1 lostClient) = Disconnected
   \<and> reconnectTimeoutRef (disconnect cl1 lostClient) 1 = None
   \<and> 3 \<notin> tid ` set (timers (disconnect cl1 lostClient))
   \<and> pendingReconnectsOf 1 (disconnect cl1 lostClient) = []
   \<and> reconnectTimeoutRef (disconnect cl1 lostClient) 2 = reconnectTimeoutRef lostClient 2
   \<and> pendingReconnectsOf 2 (disconnect cl1 lostClient) = pendingReconnectsOf 2 lostClient
   \<and> disconnect cl1 (disconnect cl1 lostClient) = disconnect cl1 lostClient"
proof -
  have two: "(2::nat) \<noteq> 1" by simp
  note t = disconnect_clears_retry [of cl1 lostClient, unfolded cl1_hook(1)]
  show ?thesis
    using t reachable_lost lostClient_ref cl1_hook(1) two by blast
qed

text \<open>
  The claim as stated fails in its liveness part: \<open>disconnect()\<close> does not touch
  \<open>pythonDisconnectedTimeout\<close>. With the liveness timeout armed, it leaves the timeout
  pending, and 10 seconds after it was armed the timeout fires and sets the status of the
  disconnected client to \<open>connecting-python\<close>. It fails too for the retry of another hook
  instance: after the socket of instance 1 has failed, \<open>disconnect()\<close> called by instance 2
  leaves the retry of instance 1 pending, and 5 seconds after the failure that retry fires
  and opens a new socket.
\<close>

theorem disconnect_leaves_timers_pending:
  "pythonDisconnectedTimeout probedClient = Some 2
   \<and> pendingLiveness probedClient
       = [\<lparr>tid = 2, due = 40000, period = None, action = PythonDisconnectedFire\<rparr>]
   \<and> socketStatus (disconnect cl2 probedClient) = Disconnected
   \<and> pythonDisconnectedTimeout (disconnect cl2 probedClient) = Some 2
   \<and> pendingLiveness (disconnect cl2 probedClient)
       = [\<lparr>tid = 2, due = 40000, period = None, action = PythonDisconnectedFire\<rparr>]
   \<and> map_option socketStatus (fireTimer 2 (advance 10000 (disconnect cl2 probedClient)))
       = Some ConnectingPython
   \<and> reachable otherDisconnected
   \<and> fst otherRender = cl3
   \<and> cl_hook cl3 = 2
   \<and> socketInstance otherDisconnected = None
   \<and> socketStatus otherDisconnected = Disconnected
   \<and> pendingReconnects otherDisconnected
       = [\<lparr>tid = 1, due = 5000, period = None, action = ReconnectFire cl1\<rparr>]
   \<and> effects otherDisconnected
       = [NewWebSocket ''project_1'', ConsoleError ''WebSocket error:'', CloseSocket]
   \<and> map_option effects (fireTimer 1 (advance 5000 otherDisconnected))
       = Some [NewWebSocket ''project_1'', ConsoleError ''WebSocket error:'', CloseSocket,
               NewWebSocket ''project_1'']"
proof -
  have t: "timers (disconnect cl2 probedClient) = timers probedClient"
    by (simp add: disconnect_fields(7) probedClient_fields(1))
  have p: "pendingLiveness probedClient
       = [\<lparr>tid = 2, due = 40000, period = None, action = PythonDisconnectedFire\<rparr>]"
    by (simp add: pendingLiveness_def probedClient_fields(7) isLiveness_def)
  have p': "pendingLiveness (disconnect cl2 probedClient) = pendingLiveness probedClient"
    by (simp add: pendingLiveness_def t)
  have n: "now (disconnect cl2 probedClient) = 30000"
    by (simp add: disconnect_fields(8) probedClient_fields)
  have f: "map_option socketStatus (fireTimer 2 (advance 10000 (disconnect cl2 probedClient)))
       = Some ConnectingPython"
    by (simp add: fireTimer_def advance_def t n probedClient_fields(7) setSocketStatus_def)
  have o: "pendingReconnects otherDisconnected
       = [\<lparr>tid = 1, due = 5000, period = None, action = ReconnectFire cl1\<rparr>]"
    by (simp add: pendingReconnects_def otherDisconnected_fields(1) isReconnect_def)
  have g: "map_option effects (fireTimer 1 (advance 5000 otherDisconnected))
       = Some [NewWebSocket ''project_1'', ConsoleError ''WebSocket error:'', CloseSocket,
               NewWebSocket ''project_1'']"
    by (simp add: fireTimer_def advance_def otherDisconnected_fields connect_def socketOpen_def
        emit_def setSocketStatus_def cl1_def)
  have c: "fst otherRender = cl3" "cl_hook cl3 = 2"
    by (simp_all add: otherRender_val cl3_def)
  show ?thesis
    using p p' f o g c reachable_otherDisconnected
    by (simp add: disconnect_fields(2,4) probedClient_fields(4) otherDisconnected_fields(3,4,5))
qed

text \<open>
  C5 (one retry), as the code has it: the ref that holds the retry belongs to one hook
  instance. In every reachable state at most one retry timer of each hook instance is
  pending. When none of an instance is, and the transport is lost twice less than 5 seconds
  apart (a \<open>close\<close> or an \<open>error\<close> event each) with both events handled by closures of
  that instance, exactly one retry timer of the instance is pending afterwards, due
  5 seconds after the first loss; it cannot fire before, and when it fires it calls
  \<open>connect()\<close> once, which opens one new socket for the project, and no retry of the
  instance is pending any more.
\<close>

theorem reconnect_scheduled_once:
  "reachable st \<Longrightarrow>
   (\<forall>k. length (pendingReconnectsOf k st) \<le> 1)
   \<and> (reconnectTimeoutRef st (cl_hook cl) = None \<and> cl_hook cl' = cl_hook cl \<longrightarrow>
        (\<forall>d < 5000.
           let h = nextTimerId st;
               retry = \<lparr>tid = h, due = now st + 5000, period = None, action = ReconnectFire cl\<rparr>;
               s1 = transportLost l1 cl st;
               s2 = transportLost l2 cl' (advance d s1)
           in pendingReconnectsOf (cl_hook cl) s1 = [retry]
              \<and> pendingReconnectsOf (cl_hook cl) s2 = [retry]
              \<and> fireTimer h s2 = None
              \<and> (\<forall>d'. 5000 \<le> d + d' \<longrightarrow>
                    (\<exists>s3. fireTimer h (advance d' s2) = Some s3
                        \<and> s3 = connect cl
                                ((advance d' s2)\<lparr>timers := timers st,
                                                  reconnectTimeoutRef := reconnectTimeoutRef st\<rparr>)
                        \<and> pendingReconnectsOf (cl_hook cl) s3 = []
                        \<and> reconnectTimeoutRef s3 (cl_hook cl) = None
                        \<and> (\<forall>p. cl_project cl = Some p \<longrightarrow>
                              effects s3 = effects s2 @ [NewWebSocket p])))))"
proof -
  assume r: "reachable st"
  then have i: "inv st" by (rule reachable_inv)
  have one: "\<forall>k. length (pendingReconnectsOf k st) \<le> 1"
    using at_most_one_retry [OF i] by blast
  have two: ?thesis
    if none: "reconnectTimeoutRef st (cl_hook cl) = None" and same: "cl_hook cl' = cl_hook cl"
  proof -
    define h where "h = nextTimerId st"
    define retry where
      "retry = \<lparr>tid = h, due = now st + 5000, period = None, action = ReconnectFire cl\<rparr>"
    have old: "filter (isReconnectOf (cl_hook cl)) (timers st) = []"
      using invD(3) [OF i, of "cl_hook cl"] none
        no_pending_kind [of "isReconnectOf (cl_hook cl)" "timers st" "nextTimerId st"]
      by simp
    have below: "list_all (\<lambda>t. tid t < h) (timers st)"
      using invD(1) [OF i] by (simp add: timersWf_def h_def)
    have r_retry: "isReconnectOf (cl_hook cl) retry" "tid retry = h"
      by (simp_all add: retry_def isReconnectOf_def)
    have unset: "(reconnectTimeoutRef st)(cl_hook cl := None) = reconnectTimeoutRef st"
      using none by (simp add: fun_eq_iff)
    have rest: "pendingReconnectsOf (cl_hook cl) s = [retry] \<and> fireTimer h s = None
        \<and> (\<forall>d'. 5000 \<le> d + d' \<longrightarrow>
              (\<exists>s3. fireTimer h (advance d' s) = Some s3
                 \<and> s3 = connect cl ((advance d' s)\<lparr>timers := timers st,
                                         reconnectTimeoutRef := reconnectTimeoutRef st\<rparr>)
                 \<and> pendingReconnectsOf (cl_hook cl) s3 = []
                 \<and> reconnectTimeoutRef s3 (cl_hook cl) = None
                 \<and> (\<forall>p. cl_project cl = Some p \<longrightarrow> effects s3 = effects s @ [NewWebSocket p])))"
      if ts: "timers s = timers st @ [retry]" and nw: "now s = now st + d" and d: "d < 5000"
        and cls: "\<not> socketOpen s"
        and rf: "reconnectTimeoutRef s = (reconnectTimeoutRef st)(cl_hook cl := Some h)"
      for s d
    proof -
      have f: "find (\<lambda>u. tid u = h) (timers s) = Some retry"
        and g: "filter (\<lambda>u. tid u \<noteq> h) (timers s) = timers st"
        unfolding ts using find_fresh [OF below r_retry(2)] by simp_all
      have p: "pendingReconnectsOf (cl_hook cl) s = [retry]"
        by (simp add: pendingReconnectsOf_def ts old r_retry)
      have n: "fireTimer h s = None"
        using d by (simp add: fireTimer_def f nw retry_def)
      have fire: "fireTimer h (advance d' s)
          = Some (connect cl ((advance d' s)\<lparr>timers := timers st,
                                reconnectTimeoutRef := reconnectTimeoutRef st\<rparr>))"
        if "5000 \<le> d + d'" for d'
        using that by (simp add: fireTimer_def advance_def f g nw retry_def rf unset)
      have after: "pendingReconnectsOf (cl_hook cl)
            (connect cl ((advance d' s)\<lparr>timers := timers st,
                           reconnectTimeoutRef := reconnectTimeoutRef st\<rparr>)) = []"
        "reconnectTimeoutRef
            (connect cl ((advance d' s)\<lparr>timers := timers st,
                           reconnectTimeoutRef := reconnectTimeoutRef st\<rparr>)) (cl_hook cl) = None"
        for d'
        by (simp_all add: pendingReconnectsOf_def connect_def emit_def setSocketStatus_def
            advance_def old none split: option.split)
      have opened: "effects (connect cl ((advance d' s)\<lparr>timers := timers st,
                                reconnectTimeoutRef := reconnectTimeoutRef st\<rparr>))
          = effects s @ [NewWebSocket p]" if "cl_project cl = Some p" for d' p
        using that cls
        by (simp add: connect_def emit_def setSocketStatus_def advance_def socketOpen_def)
      show ?thesis using p n fire after opened by simp
    qed
    have s1: "timers (transportLost l1 cl st) = timers st @ [retry]"
      "reconnectTimeoutRef (transportLost l1 cl st)
         = (reconnectTimeoutRef st)(cl_hook cl := Some h)"
      "now (transportLost l1 cl st) = now st"
      using transportLost_fresh [OF none, of l1] by (simp_all add: retry_def h_def)
    have pend: "reconnectTimeoutRef (advance d (transportLost l1 cl st)) (cl_hook cl') = Some h"
      for d
      by (simp add: advance_def s1(2) same)
    have s2: "timers (transportLost l2 cl' (advance d (transportLost l1 cl st))) = timers st @ [retry]"
      "now (transportLost l2 cl' (advance d (transportLost l1 cl st))) = now st + d"
      "\<not> socketOpen (transportLost l2 cl' (advance d (transportLost l1 cl st)))"
      "reconnectTimeoutRef (transportLost l2 cl' (advance d (transportLost l1 cl st)))
         = (reconnectTimeoutRef st)(cl_hook cl := Some h)" for d
      using transportLost_pending [OF pend, of l2 d] s1
      by (simp_all add: advance_def)
    have p1: "pendingReconnectsOf (cl_hook cl) (transportLost l1 cl st) = [retry]"
      by (simp add: pendingReconnectsOf_def s1 old r_retry)
    show ?thesis
      using one p1 rest [OF s2(1) s2(2) _ s2(3) s2(4)]
      by (simp add: Let_def h_def [symmetric] retry_def [symmetric])
  qed
  show ?thesis
  proof (cases "reconnectTimeoutRef st (cl_hook cl) = None \<and> cl_hook cl' = cl_hook cl")
    case True
    then show ?thesis using two by blast
  next
    case False
    with one show ?thesis by blast
  qed
qed

theorem reconnect_scheduled_once_witness:
  "reachable openedClient
   \<and> reconnectTimeoutRef openedClient (cl_hook cl1) = None
   \<and> nextTimerId openedClient = 1
   \<and> now openedClient = 0
   \<and> length (pendingReconnectsOf 1 openedClient) \<le> 1
   \<and> pendingReconnectsOf (cl_hook cl1) (transportLost ErrorOnSocket cl1 openedClient)
       = [\<lparr>tid = 1, due = 5000, period = None, action = ReconnectFire cl1\<rparr>]
   \<and> pendingReconnectsOf (cl_hook cl1)
         (transportLost CloseEvent cl1 (advance 3 (transportLost ErrorOnSocket cl1 openedClient)))
       = [\<lparr>tid = 1, due = 5000, period = None, action = ReconnectFire cl1\<rparr>]
   \<and> fireTimer 1
         (transportLost CloseEvent cl1 (advance 3 (transportLost ErrorOnSocket cl1 openedClient)))
       = None
   \<and> (\<exists>s3. fireTimer 1
              (advance 4997
                 (transportLost CloseEvent cl1
                    (advance 3 (transportLost ErrorOnSocket cl1 openedClient))))
            = Some s3
          \<and> pendingReconnectsOf (cl_hook cl1) s3 = []
          \<and> reconnectTimeoutRef s3 (cl_hook cl1) = None
          \<and> effects s3
              = effects (transportLost CloseEvent cl1
                           (advance 3 (transportLost ErrorOnSocket cl1 openedClient)))
                @ [NewWebSocket ''project_1''])"
proof -
  have none: "reconnectTimeoutRef openedClient (cl_hook cl1) = None"
    by (simp add: openedClient_fields(1))
  note t = reconnect_scheduled_once [OF reachable_opened, of cl1 cl1 ErrorOnSocket CloseEvent,
      unfolded Let_def openedClient_fields(2,3)]
  from t have one: "length (pendingReconnectsOf 1 openedClient) \<le> 1" by blast
  from t none have a: "\<forall>d<5000.
       pendingReconnectsOf (cl_hook cl1) (transportLost ErrorOnSocket cl1 openedClient)
         = [\<lparr>tid = 1, due = 0 + 5000, period = None, action = ReconnectFire cl1\<rparr>]
       \<and> pendingReconnectsOf (cl_hook cl1)
           (transportLost CloseEvent cl1 (advance d (transportLost ErrorOnSocket cl1 openedClient)))
         = [\<lparr>tid = 1, due = 0 + 5000, period = None, action = ReconnectFire cl1\<rparr>]
       \<and> fireTimer 1
           (transportLost CloseEvent cl1 (advance d (transportLost ErrorOnSocket cl1 openedClient)))
         = None
       \<and> (\<forall>d'. 5000 \<le> d + d' \<longrightarrow>
            (\<exists>s3. fireTimer 1
                 (advance d'
                    (transportLost CloseEvent cl1
                       (advance d (transportLost ErrorOnSocket cl1 openedClient))))
               = Some s3
               \<and> s3 = connect cl1
                    ((advance d'
                       (transportLost CloseEvent cl1
                          (advance d (transportLost ErrorOnSocket cl1 openedClient))))
                     \<lparr>timers := timers openedClient,
                       reconnectTimeoutRef := reconnectTimeoutRef openedClient\<rparr>)
               \<and> pendingReconnectsOf (cl_hook cl1) s3 = []
               \<and> reconnectTimeoutRef s3 (cl_hook cl1) = None
               \<and> (\<forall>p. cl_project cl1 = Some p \<longrightarrow>
                     effects s3
                       = effects (transportLost CloseEvent cl1
                                    (advance d (transportLost ErrorOnSocket cl1 openedClient)))
                         @ [NewWebSocket p])))"
    by blast
  have 3: "(3::nat) < 5000" and 4: "(5000::nat) \<le> 3 + 4997" by simp_all
  from a [rule_format, OF 3] have b:
    "pendingReconnectsOf (cl_hook cl1) (transportLost ErrorOnSocket cl1 openedClient)
         = [\<lparr>tid = 1, due = 0 + 5000, period = None, action = ReconnectFire cl1\<rparr>]"
    "pendingReconnectsOf (cl_hook cl1)
           (transportLost CloseEvent cl1 (advance 3 (transportLost ErrorOnSocket cl1 openedClient)))
         = [\<lparr>tid = 1, due = 0 + 5000, period = None, action = ReconnectFire cl1\<rparr>]"
    "fireTimer 1
           (transportLost CloseEvent cl1 (advance 3 (transportLost ErrorOnSocket cl1 openedClient)))
         = None"
    by blast+
  from a [rule_format, OF 3, THEN conjunct2, THEN conjunct2, THEN conjunct2, rule_format, OF 4]
    cl1_project
  have c: "\<exists>s3. fireTimer 1
              (advance 4997
                 (transportLost CloseEvent cl1
                    (advance 3 (transportLost ErrorOnSocket cl1 openedClient))))
            = Some s3
          \<and> pendingReconnectsOf (cl_hook cl1) s3 = []
          \<and> reconnectTimeoutRef s3 (cl_hook cl1) = None
          \<and> effects s3
              = effects (transportLost CloseEvent cl1
                           (advance 3 (transportLost ErrorOnSocket cl1 openedClient)))
                @ [NewWebSocket ''project_1'']"
    by blast
  have z: "(0::nat) + 5000 = 5000" by simp
  show ?thesis
    using reachable_opened openedClient_fields(2,3) none one b [unfolded z] c by blast
qed

text \<open>
  The claim as stated fails when two hook instances are mounted, each with a ref of its
  own. Instances 1 and 2 each call \<open>connect()\<close>; the socket of instance 1 fails, and 3 ms
  later the socket of instance 2 fails, before any retry has fired. Two retry timers are
  then pending, one held by each ref, and when they fire, 5 seconds after each failure,
  \<open>connect()\<close> is called twice and two sockets are opened.
\<close>

theorem two_instances_two_retries:
  "reachable bothLost
   \<and> fst firstRender = cl1 \<and> cl_hook cl1 = 1
   \<and> fst otherRender = cl3 \<and> cl_hook cl3 = 2
   \<and> pendingReconnects bothLost
       = [\<lparr>tid = 1, due = 5000, period = None, action = ReconnectFire cl1\<rparr>,
          \<lparr>tid = 2, due = 5003, period = None, action = ReconnectFire cl3\<rparr>]
   \<and> length (pendingReconnects bothLost) = 2
   \<and> pendingReconnectsOf 1 bothLost
       = [\<lparr>tid = 1, due = 5000, period = None, action = ReconnectFire cl1\<rparr>]
   \<and> pendingReconnectsOf 2 bothLost
       = [\<lparr>tid = 2, due = 5003, period = None, action = ReconnectFire cl3\<rparr>]
   \<and> effects bothLost
       = [NewWebSocket ''project_1'', NewWebSocket ''project_1'',
          ConsoleError ''WebSocket error:'', ConsoleError ''WebSocket error:'']
   \<and> map_option effects bothRetried
       = Some [NewWebSocket ''project_1'', NewWebSocket ''project_1'',
               ConsoleError ''WebSocket error:'', ConsoleError ''WebSocket error:'',
               NewWebSocket ''project_1'', NewWebSocket ''project_1'']
   \<and> map_option timers bothRetried = Some []"
proof -
  have c: "fst firstRender = cl1" "cl_hook cl1 = 1" "fst otherRender = cl3" "cl_hook cl3 = 2"
    by (simp_all add: firstRender_val otherRender_val cl1_def cl3_def)
  have p: "pendingReconnects bothLost
       = [\<lparr>tid = 1, due = 5000, period = None, action = ReconnectFire cl1\<rparr>,
          \<lparr>tid = 2, due = 5003, period = None, action = ReconnectFire cl3\<rparr>]"
    by (simp add: pendingReconnects_def bothLost_fields(1) isReconnect_def)
  have q: "pendingReconnectsOf 1 bothLost
       = [\<lparr>tid = 1, due = 5000, period = None, action = ReconnectFire cl1\<rparr>]"
    "pendingReconnectsOf 2 bothLost
       = [\<lparr>tid = 2, due = 5003, period = None, action = ReconnectFire cl3\<rparr>]"
    by (simp_all add: pendingReconnectsOf_def bothLost_fields(1) isReconnectOf_def c)
  show ?thesis
    using c p q reachable_bothLost bothLost_fields(4) bothRetried_fields by simp
qed

text \<open>
  C6 (liveness round trip). In a reachable state with status \<open>connecting-python\<close> and
  the liveness timeout armed and pending, an \<open>is_alive_response\<close> clears the timeout, so
  that no liveness timeout is pending, and sets the status to \<open>connected\<close>.
\<close>

theorem is_alive_response_round_trip:
  "reachable st \<Longrightarrow> socketStatus st = ConnectingPython \<Longrightarrow>
   pythonDisconnectedTimeout st = Some h \<Longrightarrow> h \<in> tid ` set (timers st) \<Longrightarrow>
   socketStatus (handleMessage cl IsAliveResponse st) = Connected
   \<and> pythonDisconnectedTimeout (handleMessage cl IsAliveResponse st) = None
   \<and> h \<notin> tid ` set (timers (handleMessage cl IsAliveResponse st))
   \<and> pendingLiveness (handleMessage cl IsAliveResponse st) = []"
proof -
  assume r: "reachable st" and h: "pythonDisconnectedTimeout st = Some h"
  have "holdsHandle isLiveness (Some h) (timers st) (nextTimerId st)"
    using reachable_inv [OF r] h by (simp add: inv_def)
  then have "filter isLiveness (filter (\<lambda>t. tid t \<noteq> h) (timers st)) = []"
    by (auto simp: filter_empty_conv holdsHandle_def list_all_iff)
  then show ?thesis
    using h by (auto simp: Let_def setSocketStatus_def clearTimeout_def pendingLiveness_def)
qed

theorem is_alive_response_round_trip_witness:
  "reachable unreachableClient
   \<and> socketStatus unreachableClient = ConnectingPython
   \<and> pythonDisconnectedTimeout unreachableClient = Some 2
   \<and> 2 \<in> tid ` set (timers unreachableClient)
   \<and> socketStatus (handleMessage cl2 IsAliveResponse unreachableClient) = Connected
   \<and> pythonDisconnectedTimeout (handleMessage cl2 IsAliveResponse unreachableClient) = None
   \<and> 2 \<notin> tid ` set (timers (handleMessage cl2 IsAliveResponse unreachableClient))
   \<and> pendingLiveness (handleMessage cl2 IsAliveResponse unreachableClient) = []"
proof -
  have cl: "fst secondRender = cl2" by (simp add: secondRender_val)
  have r: "reachable unreachableClient"
    unfolding unreachableClient_def by (intro r_message reachable_probed)
  have s: "socketStatus unreachableClient = ConnectingPython"
    unfolding unreachableClient_def cl handleMessage_error_status
    by (rule checkIfUnreachable_connected [OF _ unreachableMessage_matches]) (simp add: cl2_def)
  have p: "pythonDisconnectedTimeout unreachableClient = Some 2"
    unfolding unreachableClient_def handleMessage_error_frame by (rule probedClient_fields(4))
  have t: "2 \<in> tid ` set (timers unreachableClient)"
    unfolding unreachableClient_def handleMessage_error_frame probedClient_fields(7) by simp
  from is_alive_response_round_trip [OF r s p t, of cl2] r s p t show ?thesis by blast
qed

text \<open>
  C7 (idempotent connect). While the socket is open, \<open>connect()\<close> changes nothing: no
  socket is opened, and the status and the execution states stay as they are.
\<close>

theorem connect_while_open:
  "socketOpen st \<Longrightarrow> connect cl st = st"
  by (simp add: connect_def split: option.split)

theorem connect_while_open_witness:
  "socketOpen connectedClient \<and> connect cl1 connectedClient = connectedClient"
proof -
  have o: "socketOpen connectedClient"
    by (simp add: socketOpen_def connectedClient_val openedClient_val)
  from connect_while_open [OF o, of cl1] o show ?thesis by blast
qed

text \<open>
  C8 (send). \<open>sendMessage(event)\<close> sends the event when the socket is open and changes
  nothing else; when the socket is not open it logs the error with \<open>console.error\<close> and
  changes nothing else: the event is not kept, no timer is set, no toast is raised.
\<close>

theorem sendMessage_only_when_open:
  "(socketOpen st \<longrightarrow> sendMessage event st = st\<lparr>effects := effects st @ [Sent event]\<rparr>)
   \<and> (\<not> socketOpen st \<longrightarrow>
        sendMessage event st
          = st\<lparr>effects := effects st @ [ConsoleError ''Cannot send message: WebSocket is not connected'']\<rparr>)
   \<and> (Sent event \<in> set (drop (length (effects st)) (effects (sendMessage event st))))
       = socketOpen st"
  by (simp add: sendMessage_def emit_def)

theorem sendMessage_only_when_open_witness:
  "socketOpen connectedClient
   \<and> sendMessage IsAlive connectedClient
       = connectedClient\<lparr>effects := effects connectedClient @ [Sent IsAlive]\<rparr>
   \<and> \<not> socketOpen initialClient
   \<and> sendMessage IsAlive initialClient
       = initialClient\<lparr>effects := effects initialClient
           @ [ConsoleError ''Cannot send message: WebSocket is not connected'']\<rparr>"
proof -
  have o: "socketOpen connectedClient"
    by (simp add: socketOpen_def connectedClient_val openedClient_val)
  have n: "\<not> socketOpen initialClient"
    by (simp add: socketOpen_def initialClient_def)
  from sendMessage_only_when_open [of connectedClient IsAlive]
    sendMessage_only_when_open [of initialClient IsAlive] o n
  show ?thesis by blast
qed

text \<open>
  C9 (the probe runs in every status). For the newest render, the liveness effect sets
  its interval whatever the status, with the period of the status. When the status is not
  \<open>connecting-python\<close> the period is 30 seconds, and as long as nothing else happens the
  \<open>k\<close>-th probe fires \<open>k\<close> times 30 seconds later; each probe is a frame sent when the
  socket is open and the error of \<open>sendMessage\<close> when it is not.
\<close>

theorem probe_interval_in_every_status:
  "reachable st \<Longrightarrow> cl_instanceId cl = instances st \<Longrightarrow>
   fst (livenessEffect cl st) = Some (nextTimerId st)
   \<and> find (\<lambda>t. tid t = nextTimerId st) (timers (snd (livenessEffect cl st)))
       = Some \<lparr>tid = nextTimerId st, due = now st + probePeriod (cl_socketStatus cl),
                period = Some (probePeriod (cl_socketStatus cl)), action = IsAliveFire cl\<rparr>
   \<and> (cl_socketStatus cl \<noteq> ConnectingPython \<longrightarrow>
        probePeriod (cl_socketStatus cl) = 30000
        \<and> (\<forall>k. \<exists>s. fireRounds (nextTimerId st) k (snd (livenessEffect cl st)) = Some s
               \<and> now s = now st + k * 30000
               \<and> effects s = effects st @ replicate k
                     (if socketOpen st then Sent IsAlive
                      else ConsoleError ''Cannot send message: WebSocket is not connected'')))"
proof -
  assume r: "reachable st" and newest: "cl_instanceId cl = instances st"
  define h where "h = nextTimerId st"
  define p where "p = probePeriod (cl_socketStatus cl)"
  define t where "t = \<lparr>tid = h, due = now st + p, period = Some p, action = IsAliveFire cl\<rparr>"
  define s1 where "s1 = snd (setInterval (IsAliveFire cl) p st)"
  have i: "inv st" using r by (rule reachable_inv)
  have below: "list_all (\<lambda>t. tid t < h) (timers st)"
    using i by (simp add: inv_def timersWf_def h_def)
  have s1: "timers s1 = timers st @ [t]" "instances s1 = instances st" "now s1 = now st"
    "effects s1 = effects st" "socketInstance s1 = socketInstance st"
    by (simp_all add: s1_def setInterval_def t_def h_def)
  have i1: "inv s1" unfolding s1_def using i by (rule inv_setInterval_isAlive)
  have f1: "find (\<lambda>u. tid u = h) (timers s1) = Some t"
    unfolding s1 using find_fresh(1) [OF below, of t] by (simp add: t_def)
  have newest1: "cl_instanceId cl = instances s1" using newest s1 by simp
  have le: "livenessEffect cl st =
      (Some h, if cl_socketStatus cl = ConnectingPython \<and> now s1 > lastIsAliveCallTimestamp s1 + 5000
               then isAlive cl s1 else s1)"
    using newest
    by (simp add: livenessEffect_def Let_def split_beta s1_def p_def h_def setInterval_def)
  have f2: "find (\<lambda>u. tid u = h) (timers (isAlive cl s1)) = Some t"
  proof -
    obtain us where "timers (isAlive cl s1) = timers s1 @ us"
      using isAlive_newest(6) [OF newest1] by blast
    then show ?thesis using f1 by (simp add: find_append_Some)
  qed
  have a: "fst (livenessEffect cl st) = Some h" by (simp add: le)
  have b: "find (\<lambda>u. tid u = h) (timers (snd (livenessEffect cl st))) = Some t"
    using f1 f2 by (simp add: le)
  have c: "p = 30000 \<and> (\<exists>s. fireRounds h k (snd (livenessEffect cl st)) = Some s
          \<and> now s = now st + k * 30000
          \<and> effects s = effects st @ replicate k (probeOutcome st))"
    if other: "cl_socketStatus cl \<noteq> ConnectingPython" for k
  proof -
    have p30: "p = 30000" using other by (simp add: p_def probePeriod_def)
    have snd_le: "snd (livenessEffect cl st) = s1" using other by (simp add: le)
    have same: "probeOutcome s1 = probeOutcome st"
      using s1(5) by (simp add: probeOutcome_def socketOpen_def)
    from probe_rounds [OF i1 f1, of p cl k] newest1 s1 same
    show ?thesis by (simp add: t_def snd_le p30)
  qed
  show ?thesis
    using a b c
    by (simp add: h_def [symmetric] p_def [symmetric] t_def [symmetric] probeOutcome_def)
qed

theorem probe_interval_in_every_status_witness:
  "reachable (snd firstRender)
   \<and> cl_instanceId cl1 = instances (snd firstRender)
   \<and> cl_socketStatus cl1 = Disconnected
   \<and> \<not> socketOpen (snd firstRender)
   \<and> fst (livenessEffect cl1 (snd firstRender)) = Some (nextTimerId (snd firstRender))
   \<and> (\<exists>s. fireRounds (nextTimerId (snd firstRender)) 2 (snd (livenessEffect cl1 (snd firstRender)))
            = Some s
          \<and> now s = now (snd firstRender) + 2 * 30000
          \<and> effects s = effects (snd firstRender)
              @ replicate 2 (ConsoleError ''Cannot send message: WebSocket is not connected''))"
proof -
  have r: "reachable (snd firstRender)"
    unfolding firstRender_def by (intro r_render r_init)
  have i: "cl_instanceId cl1 = instances (snd firstRender)"
    by (simp add: firstRender_val cl1_def)
  have d: "cl_socketStatus cl1 = Disconnected" by (simp add: cl1_def)
  then have d': "cl_socketStatus cl1 \<noteq> ConnectingPython" by simp
  have n: "\<not> socketOpen (snd firstRender)"
    by (simp add: firstRender_val socketOpen_def initialClient_def)
  note t = probe_interval_in_every_status [OF r i]
  from t have 1: "fst (livenessEffect cl1 (snd firstRender)) = Some (nextTimerId (snd firstRender))"
    by blast
  from t d' have "\<forall>k. \<exists>s. fireRounds (nextTimerId (snd firstRender)) k
              (snd (livenessEffect cl1 (snd firstRender))) = Some s
          \<and> now s = now (snd firstRender) + k * 30000
          \<and> effects s = effects (snd firstRender) @ replicate k
                (if socketOpen (snd firstRender) then Sent IsAlive
                 else ConsoleError ''Cannot send message: WebSocket is not connected'')"
    by blast
  then have 2: "\<exists>s. fireRounds (nextTimerId (snd firstRender)) 2
              (snd (livenessEffect cl1 (snd firstRender))) = Some s
          \<and> now s = now (snd firstRender) + 2 * 30000
          \<and> effects s = effects (snd firstRender) @ replicate 2
                (if socketOpen (snd firstRender) then Sent IsAlive
                 else ConsoleError ''Cannot send message: WebSocket is not connected'')"
    by (rule spec)
  have 3: "(if socketOpen (snd firstRender) then Sent IsAlive
            else ConsoleError ''Cannot send message: WebSocket is not connected'')
           = ConsoleError ''Cannot send message: WebSocket is not connected''"
    using n by simp
  from r i d n 1 2 [unfolded 3] show ?thesis by blast
qed

text \<open>
  C10 (no guard on \<open>is_alive_response\<close>). An \<open>is_alive_response\<close> sets the status to
  \<open>connected\<close> from any state, and the state it leads to is reachable when the one it came
  from is: the client goes from \<open>disconnected\<close> straight to \<open>connected\<close>, with no open
  socket.
\<close>

theorem is_alive_response_connects:
  "socketStatus (handleMessage cl IsAliveResponse st) = Connected
   \<and> socketInstance (handleMessage cl IsAliveResponse st) = socketInstance st
   \<and> (reachable st \<longrightarrow> reachable (handleMessage cl IsAliveResponse st))"
proof -
  have 1: "socketStatus (handleMessage cl IsAliveResponse st) = Connected"
    by (simp add: Let_def setSocketStatus_def)
  have 2: "socketInstance (handleMessage cl IsAliveResponse st) = socketInstance st"
    by (simp add: Let_def setSocketStatus_def clearTimeout_def split: option.split)
  have 3: "reachable st \<longrightarrow> reachable (handleMessage cl IsAliveResponse st)"
    using r_message [of st cl IsAliveResponse] by blast
  from 1 2 3 show ?thesis by blast
qed

theorem is_alive_response_connects_witness:
  "reachable lostClient
   \<and> socketStatus lostClient = Disconnected
   \<and> \<not> socketOpen lostClient
   \<and> reachable (handleMessage cl2 IsAliveResponse lostClient)
   \<and> socketStatus (handleMessage cl2 IsAliveResponse lostClient) = Connected
   \<and> \<not> socketOpen (handleMessage cl2 IsAliveResponse lostClient)"
proof -
  note t = is_alive_response_connects [of cl2 lostClient]
  have "socketOpen (handleMessage cl2 IsAliveResponse lostClient) = socketOpen lostClient"
    using t by (simp add: socketOpen_def del: handleMessage.simps)
  with t reachable_lost lostClient_status show ?thesis by blast
qed

end
